(* ===== verification/Prelude.thy ===== *)
theory Prelude
  imports Main "HOL-Library.Word" "HOL-Library.Sublist"
begin

text \<open>
  Shared vocabulary of the development: the machine types that the \<open>windows\<close> crate
  uses in the signatures of \<open>src/src/lib.rs\<close> (\<open>u16\<close> atoms, \<open>u32\<close> message
  numbers, \<open>WPARAM\<close>/\<open>LPARAM\<close>/\<open>LRESULT\<close> as 64-bit words), opaque handles as
  \<open>nat\<close> (0 is the null handle), the outcome of a Rust call (a normal return or an
  unwinding panic), the decimal rendering used by \<open>println!\<close> for integers, and the
  generic lemmas on lists and options that the component proofs share.
\<close>

unbundle bit_operations_syntax

named_theorems win32_consts "numeric values of the Win32 constants used by the program"
named_theorems os_simps "field equations of the environment operations"

type_synonym u16 = "16 word"
type_synonym u32 = "32 word"
type_synonym usize = "64 word"
type_synonym isize = "64 word"
type_synonym u128 = "128 word"

text \<open>\<open>HWND\<close> and \<open>HINSTANCE\<close> are opaque OS handles; the value 0 is the null handle.\<close>

type_synonym hwnd = nat
type_synonym hinstance = nat

text \<open>
  A Rust call either returns a value or panics. A panic unwinds the stack, and the
  destructors of the live locals (here: \<open>Drop for Window\<close>) still run, so a panicking
  call returns the state it reached as well.
\<close>

datatype 'a outcome = Return 'a | Panic string

primrec is_panic :: "'a outcome \<Rightarrow> bool" where
  "is_panic (Return _) = False"
| "is_panic (Panic _) = True"

text \<open>The panic messages of \<open>Option::unwrap\<close> and \<open>Result::unwrap\<close> in the standard library.\<close>

definition unwrap_none_msg :: string where
  "unwrap_none_msg = ''called `Option::unwrap()` on a `None` value''"

definition unwrap_err_msg :: string where
  "unwrap_err_msg = ''called `Result::unwrap()` on an `Err` value''"

subsection \<open>Decimal rendering (\<open>{:?}\<close> of an integer)\<close>

fun show_nat :: "nat \<Rightarrow> string" where
  "show_nat n = (if n < 10 then [char_of (48 + n)] else show_nat (n div 10) @ [char_of (48 + n mod 10)])"

declare show_nat.simps [simp del]

definition show_int :: "int \<Rightarrow> string" where
  "show_int i = (if i < 0 then CHR ''-'' # show_nat (nat (- i)) else show_nat (nat i))"

lemma show_nat_nonempty [simp]: "show_nat n \<noteq> []"
  by (subst show_nat.simps) simp

text \<open>Maps whose domain is at most one key.\<close>

lemma map_dom_singleton_clear: "dom m \<subseteq> {k} \<Longrightarrow> m(k := None) = Map.empty"
  by (auto simp: fun_eq_iff dom_def)

lemma map_dom_singleton_none: "dom m \<subseteq> {k} \<Longrightarrow> m k = None \<Longrightarrow> m = Map.empty"
  by (auto simp: fun_eq_iff dom_def)

end
