(* ===== verification/Win32.thy ===== *)
theory Win32
  imports Prelude
begin

text \<open>
  The Win32 environment that \<open>src/src/lib.rs\<close> runs against, as far as the program
  observes it: the registered window classes, the live windows with their per-window
  storage, the calling thread's message queue with its quit flag, the input that the user
  will produce, standard output, and a log of the resource-relevant calls in the order
  they were made. The functions here are the Win32 calls that do not call back into the
  program (\<open>GetModuleHandleW\<close>, \<open>LoadCursorW\<close>, \<open>RegisterClassA\<close>,
  \<open>UnregisterClassA\<close>, \<open>PostQuitMessage\<close>, \<open>ShowWindow\<close>,
  \<open>SetWindowLongPtrA\<close>, \<open>GetMessageA\<close>, \<open>TranslateMessage\<close>) and
  \<open>println!\<close>. They are modelled from the Win32 documentation, not from code of this
  repository; the calls that send messages to the window procedure are in
  \<open>WndProc\<close>.

  Strings that the program hands to the \<open>A\<close> functions through
  \<open>PCSTR(s.as_ptr())\<close> are Rust \<open>String\<close> buffers without a terminating NUL. The OS reads
  such a buffer up to the first NUL, so it reads whatever bytes follow the buffer in
  memory. The environment supplies those bytes, one list per read (\<open>cstr_tails\<close>); an
  exhausted supply means a NUL happens to follow the buffer.
\<close>

subsection \<open>Constants\<close>

definition WM_CREATE :: u32 where [win32_consts]: "WM_CREATE = 0x0001"
definition WM_DESTROY :: u32 where [win32_consts]: "WM_DESTROY = 0x0002"
definition WM_CLOSE :: u32 where [win32_consts]: "WM_CLOSE = 0x0010"
definition WM_QUIT :: u32 where [win32_consts]: "WM_QUIT = 0x0012"
definition WM_NCCREATE :: u32 where [win32_consts]: "WM_NCCREATE = 0x0081"
definition WM_NCDESTROY :: u32 where [win32_consts]: "WM_NCDESTROY = 0x0082"
definition WM_SYSCOMMAND :: u32 where [win32_consts]: "WM_SYSCOMMAND = 0x0112"
definition SC_CLOSE :: usize where [win32_consts]: "SC_CLOSE = 0xF060"
definition CS_VREDRAW :: u32 where [win32_consts]: "CS_VREDRAW = 0x0001"
definition CS_HREDRAW :: u32 where [win32_consts]: "CS_HREDRAW = 0x0002"
definition WS_VISIBLE :: u32 where [win32_consts]: "WS_VISIBLE = 0x10000000"
definition WS_OVERLAPPEDWINDOW :: u32 where [win32_consts]: "WS_OVERLAPPEDWINDOW = 0x00CF0000"
definition SW_NORMAL :: int where [win32_consts]: "SW_NORMAL = 1"
definition GWLP_USERDATA :: int where [win32_consts]: "GWLP_USERDATA = -21"

text \<open>The first atom the OS hands out for a registered window class.\<close>

definition MIN_CLASS_ATOM :: u16 where [win32_consts]: "MIN_CLASS_ATOM = 0xC000"

subsection \<open>State\<close>

record wnd =
  wnd_class :: string
  wnd_instance :: hinstance
  wnd_title :: string
  wnd_style :: u32
  wnd_visible :: bool
  wnd_userdata :: int

text \<open>\<open>MSG\<close>, restricted to the fields the program reads.\<close>

record msg =
  msg_hwnd :: hwnd
  msg_message :: u32
  msg_wParam :: usize
  msg_lParam :: isize

text \<open>\<open>WNDCLASSA\<close>, restricted to the fields \<open>initialize\<close> sets. Every class of this model
  has \<open>Window::wndproc\<close> as its \<open>lpfnWndProc\<close>: it is the only window procedure of the
  program.\<close>

record wndclassa =
  hCursor :: nat
  hInstance :: hinstance
  lpszClassName :: string
  style :: u32

text \<open>The calls and callbacks that acquire, use or release resources, logged in order.\<close>

datatype event =
    Ev_RegisterClassA string u16
  | Ev_CreateWindowExA string hwnd
  | Ev_SetWindowLongPtrA hwnd int
  | Ev_ShowWindow hwnd bool
  | Ev_Send hwnd u32
  | Ev_PostQuitMessage int
  | Ev_DestroyWindow hwnd bool
  | Ev_UnregisterClassA string bool

record os =
  module_handle :: "hinstance option"
  arrow_cursor :: "nat option"
  entropy :: "u128 list"
  cstr_tails :: "string list"
  self_slot :: int
  classes :: "string \<times> hinstance \<rightharpoonup> u16"
  next_atom :: u16
  windows :: "hwnd \<rightharpoonup> wnd"
  next_hwnd :: nat
  posted :: "msg list"
  quit :: "int option"
  input :: "msg list"
  stdout :: "string list"
  events :: "event list"

text \<open>
  \<open>module_handle\<close> and \<open>arrow_cursor\<close> are what \<open>GetModuleHandleW(None)\<close> and
  \<open>LoadCursorW(None, IDC_ARROW)\<close> return (\<open>None\<close>: the call fails); \<open>entropy\<close> is
  the supply of random 128-bit values that \<open>Uuid::new_v4\<close> draws from; \<open>self_slot\<close>
  is the stack address of the \<open>self\<close> parameter of \<open>initialize\<close>, the value that
  \<open>transmute(&self)\<close> produces; \<open>next_hwnd\<close> counts the window handles handed out;
  \<open>input\<close> is the user's input still to arrive.
\<close>

definition log :: "event \<Rightarrow> os \<Rightarrow> os" where
  [os_simps]: "log e s = s\<lparr>events := events s @ [e]\<rparr>"

definition println :: "string \<Rightarrow> os \<Rightarrow> os" where
  [os_simps]: "println str s = s\<lparr>stdout := stdout s @ [str]\<rparr>"

subsection \<open>Calls that do not reach the window procedure\<close>

text \<open>\<open>GetModuleHandleW(None)\<close> and \<open>LoadCursorW(None, IDC_ARROW)\<close> return a
  \<open>Result\<close>: \<open>Inl ()\<close> is the \<open>Err\<close>.\<close>

definition get_module_handle :: "os \<Rightarrow> unit + hinstance" where
  "get_module_handle s = (case module_handle s of None \<Rightarrow> Inl () | Some i \<Rightarrow> Inr i)"

definition load_cursor :: "os \<Rightarrow> unit + nat" where
  "load_cursor s = (case arrow_cursor s of None \<Rightarrow> Inl () | Some c \<Rightarrow> Inr c)"

text \<open>The OS reads a C string from a buffer: up to the first NUL.\<close>

definition read_cstr :: "string \<Rightarrow> os \<Rightarrow> string \<times> os" where
  "read_cstr buf s =
     (case cstr_tails s of
        [] \<Rightarrow> (takeWhile (\<lambda>c. c \<noteq> CHR 0x00) buf, s)
      | t # ts \<Rightarrow> (takeWhile (\<lambda>c. c \<noteq> CHR 0x00) (buf @ t), s\<lparr>cstr_tails := ts\<rparr>))"

text \<open>
  \<open>RegisterClassA\<close> returns the class atom, or 0 when it fails: an empty or too long
  name, a class of that name already registered for the module, or an exhausted atom
  table (the allocator has wrapped to 0).
\<close>

definition register_class :: "wndclassa \<Rightarrow> os \<Rightarrow> u16 \<times> os" where
  "register_class wc s =
     (let (name, s1) = read_cstr (lpszClassName wc) s;
          key = (name, hInstance wc)
      in if name = [] \<or> 256 < length name \<or> classes s1 key \<noteq> None \<or> next_atom s1 = 0
         then (0, log (Ev_RegisterClassA name 0) s1)
         else (next_atom s1,
               log (Ev_RegisterClassA name (next_atom s1))
                 (s1\<lparr>classes := (classes s1)(key \<mapsto> next_atom s1),
                     next_atom := next_atom s1 + 1\<rparr>)))"

text \<open>\<open>UnregisterClassA\<close> fails when no such class is registered or when a live
  window still uses it.\<close>

definition class_has_windows :: "string \<Rightarrow> hinstance \<Rightarrow> os \<Rightarrow> bool" where
  "class_has_windows name inst s =
     (\<exists>h \<in> dom (windows s). wnd_class (the (windows s h)) = name \<and> wnd_instance (the (windows s h)) = inst)"

definition unregister_class :: "string \<Rightarrow> hinstance \<Rightarrow> os \<Rightarrow> bool \<times> os" where
  "unregister_class buf inst s =
     (let (name, s1) = read_cstr buf s
      in if classes s1 (name, inst) = None \<or> class_has_windows name inst s1
         then (False, log (Ev_UnregisterClassA name False) s1)
         else (True, log (Ev_UnregisterClassA name True)
                       (s1\<lparr>classes := (classes s1)((name, inst) := None)\<rparr>)))"

definition post_quit_message :: "int \<Rightarrow> os \<Rightarrow> os" where
  "post_quit_message code s = log (Ev_PostQuitMessage code) (s\<lparr>quit := Some code\<rparr>)"

text \<open>\<open>ShowWindow\<close> returns whether the window was visible before; on an invalid handle
  it does nothing.\<close>

definition show_window :: "hwnd \<Rightarrow> int \<Rightarrow> os \<Rightarrow> bool \<times> os" where
  "show_window h cmd s =
     (case windows s h of
        None \<Rightarrow> (False, s)
      | Some w \<Rightarrow> (wnd_visible w,
                   log (Ev_ShowWindow h (cmd \<noteq> 0))
                     (s\<lparr>windows := (windows s)(h \<mapsto> w\<lparr>wnd_visible := (cmd \<noteq> 0)\<rparr>)\<rparr>)))"

text \<open>\<open>SetWindowLongPtrA(h, GWLP_USERDATA, v)\<close> returns the previous value, 0 on an
  invalid handle.\<close>

definition set_window_long_ptr :: "hwnd \<Rightarrow> int \<Rightarrow> int \<Rightarrow> os \<Rightarrow> int \<times> os" where
  "set_window_long_ptr h idx v s =
     (case windows s h of
        None \<Rightarrow> (0, s)
      | Some w \<Rightarrow>
          if idx = GWLP_USERDATA
          then (wnd_userdata w,
                log (Ev_SetWindowLongPtrA h v)
                  (s\<lparr>windows := (windows s)(h \<mapsto> w\<lparr>wnd_userdata := v\<rparr>)\<rparr>))
          else (0, s))"

text \<open>
  \<open>GetMessageA(&msg, HWND(0), 0, 0)\<close>: posted messages first; when none is left and
  \<open>PostQuitMessage\<close> has been called, \<open>WM_QUIT\<close> with result 0 (the quit flag is
  cleared); otherwise the next input message. With no message at all the call blocks,
  which is \<open>None\<close>. This call does not return \<open>-1\<close>: the documented causes of that
  error (an invalid window filter or message pointer) do not arise with \<open>HWND(0)\<close> and a
  valid buffer. \<open>Msg_Buffer\<close> states the pump over any \<open>GetMessageA\<close>, the failing
  one included, for the error path the code has to handle anyway.
\<close>

definition quit_msg :: "int \<Rightarrow> msg" where
  "quit_msg code = \<lparr>msg_hwnd = 0, msg_message = WM_QUIT, msg_wParam = word_of_int code, msg_lParam = 0\<rparr>"

definition get_message :: "os \<Rightarrow> (int \<times> msg \<times> os) option" where
  "get_message s =
     (case posted s of
        m # ms \<Rightarrow> Some (1, m, s\<lparr>posted := ms\<rparr>)
      | [] \<Rightarrow>
          (case quit s of
             Some code \<Rightarrow> Some (0, quit_msg code, s\<lparr>quit := None\<rparr>)
           | None \<Rightarrow>
               (case input s of
                  m # ms \<Rightarrow> Some (1, m, s\<lparr>input := ms\<rparr>)
                | [] \<Rightarrow> None)))"

text \<open>\<open>TranslateMessage\<close> only turns key strokes into character messages; the model has
  no keyboard input, so it leaves the state as it is.\<close>

definition translate_message :: "msg \<Rightarrow> os \<Rightarrow> os" where
  "translate_message m s = s"

text \<open>Registered class atoms lie in the range the OS reserves for them, and so does
  the next one to be handed out unless the table is exhausted.\<close>

definition atoms_ok :: "os \<Rightarrow> bool" where
  "atoms_ok s \<longleftrightarrow>
     (next_atom s = 0 \<or> MIN_CLASS_ATOM \<le> next_atom s) \<and> (\<forall>a \<in> ran (classes s). MIN_CLASS_ATOM \<le> a)"

lemma get_message_length:
  "get_message s = Some (r, m, s') \<Longrightarrow> r \<noteq> 0 \<Longrightarrow>
     length (posted s') + length (input s') < length (posted s) + length (input s)"
  by (auto simp: get_message_def split: list.splits option.splits)

lemma read_cstr_exact:
  "cstr_tails s = [] \<Longrightarrow> CHR 0x00 \<notin> set buf \<Longrightarrow> read_cstr buf s = (buf, s)"
  by (auto simp: read_cstr_def takeWhile_eq_all_conv)

lemma read_cstr_frame:
  "read_cstr buf s = (name, s1) \<Longrightarrow> s1 = s\<lparr>cstr_tails := drop 1 (cstr_tails s)\<rparr>"
  by (auto simp: read_cstr_def split: list.splits)

lemma register_class_new:
  assumes "read_cstr (lpszClassName wc) s = (name, s1)" and "name \<noteq> []" and "length name \<le> 256"
    and "classes s1 (name, hInstance wc) = None" and "next_atom s1 \<noteq> 0"
  shows "register_class wc s =
           (next_atom s1, log (Ev_RegisterClassA name (next_atom s1))
              (s1\<lparr>classes := (classes s1)((name, hInstance wc) \<mapsto> next_atom s1),
                  next_atom := next_atom s1 + 1\<rparr>))"
  using assms by (simp add: register_class_def)

lemma register_class_refused:
  assumes "read_cstr (lpszClassName wc) s = (name, s1)"
    and "name = [] \<or> 256 < length name \<or> classes s1 (name, hInstance wc) \<noteq> None \<or> next_atom s1 = 0"
  shows "register_class wc s = (0, log (Ev_RegisterClassA name 0) s1)"
  using assms by (auto simp: register_class_def)

lemma unregister_class_eq:
  assumes "read_cstr buf s = (name, s1)"
  shows "unregister_class buf inst s =
           (if classes s1 (name, inst) = None \<or> class_has_windows name inst s1
            then (False, log (Ev_UnregisterClassA name False) s1)
            else (True, log (Ev_UnregisterClassA name True)
                          (s1\<lparr>classes := (classes s1)((name, inst) := None)\<rparr>)))"
  using assms by (simp add: unregister_class_def)

lemma register_class_fresh:
  assumes "cstr_tails s = []" and "CHR 0x00 \<notin> set (lpszClassName wc)"
    and "lpszClassName wc \<noteq> []" and "length (lpszClassName wc) \<le> 256"
    and "classes s (lpszClassName wc, hInstance wc) = None" and "next_atom s \<noteq> 0"
  shows "register_class wc s =
           (next_atom s, log (Ev_RegisterClassA (lpszClassName wc) (next_atom s))
              (s\<lparr>classes := (classes s)((lpszClassName wc, hInstance wc) \<mapsto> next_atom s),
                 next_atom := next_atom s + 1\<rparr>))"
  using assms by (simp add: register_class_new read_cstr_exact)

lemma get_message_msg:
  "get_message s = Some (r, m, s') \<Longrightarrow> r \<noteq> 0 \<Longrightarrow> quit s' = quit s \<and> events s' = events s"
  by (auto simp: get_message_def split: list.splits option.splits)

lemma get_message_events: "get_message s = Some (r, m, s') \<Longrightarrow> events s' = events s"
  by (auto simp: get_message_def split: list.splits option.splits)

lemma get_message_quit: "get_message s = Some (0, m, s') \<Longrightarrow> quit s \<noteq> None"
  by (auto simp: get_message_def split: list.splits option.splits)

lemma read_cstr_same_tails:
  "cstr_tails s' = cstr_tails s \<Longrightarrow> fst (read_cstr buf s') = fst (read_cstr buf s)"
  by (simp add: read_cstr_def split: list.splits)

lemma unregister_class_events:
  "\<exists>b. events (snd (unregister_class buf inst s)) =
         events s @ [Ev_UnregisterClassA (fst (read_cstr buf s)) b]"
  by (cases "read_cstr buf s")
     (auto simp: unregister_class_eq os_simps dest: read_cstr_frame)

lemma register_class_exhausted:
  assumes "cstr_tails s = []" and "CHR 0x00 \<notin> set (lpszClassName wc)" and "next_atom s = 0"
  shows "register_class wc s = (0, log (Ev_RegisterClassA (lpszClassName wc) 0) s)"
  using assms by (simp add: register_class_refused read_cstr_exact)

lemma read_cstr_tail:
  "cstr_tails s = t # ts \<Longrightarrow> CHR 0x00 \<notin> set buf \<Longrightarrow> CHR 0x00 \<notin> set t \<Longrightarrow>
     read_cstr buf s = (buf @ t, s\<lparr>cstr_tails := ts\<rparr>)"
  by (auto simp: read_cstr_def takeWhile_eq_all_conv)

lemma atom_succ: "MIN_CLASS_ATOM \<le> (n::u16) \<Longrightarrow> n + 1 = 0 \<or> MIN_CLASS_ATOM \<le> n + 1"
proof (cases "n + 1 \<le> n")
  case True
  then have "n = -1" by (rule inc_less_eq_triv_imp)
  then show ?thesis by simp
next
  case False
  assume min: "MIN_CLASS_ATOM \<le> n"
  from False have "n \<le> n + 1" by simp
  with min show ?thesis by (meson order_trans)
qed
lemma register_class_atom_range:
  assumes "atoms_ok s"
  shows "(fst (register_class wc s) = 0 \<or> MIN_CLASS_ATOM \<le> fst (register_class wc s)) \<and>
         atoms_ok (snd (register_class wc s))"
proof -
  obtain name s1 where rd: "read_cstr (lpszClassName wc) s = (name, s1)"
    by (cases "read_cstr (lpszClassName wc) s")
  have s1: "classes s1 = classes s" "next_atom s1 = next_atom s"
    using read_cstr_frame [OF rd] by simp_all
  show ?thesis
  proof (cases "name = [] \<or> 256 < length name \<or> classes s1 (name, hInstance wc) \<noteq> None \<or> next_atom s1 = 0")
    case True
    then show ?thesis
      using assms s1 by (simp add: register_class_refused [OF rd] atoms_ok_def os_simps)
  next
    case False
    then have "MIN_CLASS_ATOM \<le> next_atom s"
      using assms s1 by (simp add: atoms_ok_def)
    then show ?thesis
      using assms s1 False atom_succ [of "next_atom s"]
      by (auto simp: register_class_new [OF rd] atoms_ok_def os_simps ran_def)
  qed
qed
lemma get_message_frame:
  "get_message s = Some (r, m, s') \<Longrightarrow>
     cstr_tails s' = cstr_tails s \<and> classes s' = classes s \<and> windows s' = windows s \<and> stdout s' = stdout s"
  by (auto simp: get_message_def split: list.splits option.splits)

end
