(* ===== verification/WndProc.thy ===== *)
theory WndProc
  imports Win32
begin

text \<open>
  The window procedure \<open>Window::wndproc\<close> (\<open>src/src/lib.rs\<close>, lines 33--47) and the
  Win32 calls that call it synchronously: \<open>DestroyWindow\<close> (sends \<open>WM_DESTROY\<close> and
  \<open>WM_NCDESTROY\<close>), \<open>DefWindowProcA\<close> (its \<open>WM_CLOSE\<close> case destroys the window, its
  \<open>SC_CLOSE\<close> system command sends \<open>WM_CLOSE\<close>), \<open>CreateWindowExA\<close> (sends
  \<open>WM_NCCREATE\<close> and \<open>WM_CREATE\<close>) and \<open>DispatchMessageA\<close>. The procedure and the
  calls that it makes and that make it are one mutually recursive function; it terminates
  because each send is to a message of lower rank. The lemmas give every message its
  closed form (\<open>wndproc_flat\<close>), from which the close-to-destroy chain, the idempotence of
  \<open>DestroyWindow\<close> and the frame conditions follow.
\<close>

subsection \<open>The window procedure and the sends it takes part in\<close>

definition send_rank :: "u32 \<Rightarrow> nat" where
  "send_rank m = (if m = WM_SYSCOMMAND then 2 else if m = WM_CLOSE then 1 else 0)"

function wndproc :: "hwnd \<Rightarrow> u32 \<Rightarrow> usize \<Rightarrow> isize \<Rightarrow> os \<Rightarrow> isize \<times> os"
  and destroy_window :: "hwnd \<Rightarrow> os \<Rightarrow> bool \<times> os"
  and def_window_proc :: "hwnd \<Rightarrow> u32 \<Rightarrow> usize \<Rightarrow> isize \<Rightarrow> os \<Rightarrow> isize \<times> os" where
  "wndproc hwnd message wparam lparam s =
     (if message = WM_CLOSE then (let (_, s') = destroy_window hwnd s in (0, s'))
      else if message = WM_DESTROY then (0, post_quit_message 0 s)
      else def_window_proc hwnd message wparam lparam s)"
| "destroy_window hwnd s =
     (if windows s hwnd = None then (False, log (Ev_DestroyWindow hwnd False) s)
      else
        (let (_, s2) = wndproc hwnd WM_DESTROY 0 0 (log (Ev_Send hwnd WM_DESTROY) s);
             (_, s3) = wndproc hwnd WM_NCDESTROY 0 0 (log (Ev_Send hwnd WM_NCDESTROY) s2)
         in (True, log (Ev_DestroyWindow hwnd True) (s3\<lparr>windows := (windows s3)(hwnd := None)\<rparr>))))"
| "def_window_proc hwnd message wparam lparam s =
     (if message = WM_NCCREATE then (1, s)
      else if message = WM_CLOSE then (let (_, s') = destroy_window hwnd s in (0, s'))
      else if message = WM_SYSCOMMAND \<and> (wparam AND 0xFFF0) = SC_CLOSE then
        (if windows s hwnd = None then (0, s)
         else (let (_, s') = wndproc hwnd WM_CLOSE 0 0 (log (Ev_Send hwnd WM_CLOSE) s) in (0, s')))
      else (0, s))"
  by pat_completeness auto
termination
  by (relation "measure (case_sum (\<lambda>(h, m, wp, lp, s). 3 * send_rank m + 2)
        (case_sum (\<lambda>_. 3) (\<lambda>(h, m, wp, lp, s). 3 * send_rank m + 1)))")
     (auto simp: send_rank_def win32_consts)

declare wndproc.simps [simp del] destroy_window.simps [simp del] def_window_proc.simps [simp del]

text \<open>\<open>Window::on_destroy\<close> and \<open>Window::on_nccreate\<close> (lines 19--25) are not called: the
  branch that would call \<open>on_nccreate\<close> is commented out in \<open>wndproc\<close>. Both pass
  \<open>WM_DESTROY\<close> to \<open>DefWindowProcA\<close>, whatever message they handle.\<close>

definition on_destroy :: "hwnd \<Rightarrow> usize \<Rightarrow> isize \<Rightarrow> os \<Rightarrow> isize \<times> os" where
  "on_destroy hwnd wp lp s = def_window_proc hwnd WM_DESTROY wp lp s"

definition on_nccreate :: "hwnd \<Rightarrow> usize \<Rightarrow> isize \<Rightarrow> os \<Rightarrow> isize \<times> os" where
  "on_nccreate hwnd wp lp s = def_window_proc hwnd WM_DESTROY wp lp s"

subsection \<open>Calls that send to the window procedure\<close>

definition dispatch_message :: "msg \<Rightarrow> os \<Rightarrow> isize \<times> os" where
  "dispatch_message m s =
     (if windows s (msg_hwnd m) = None then (0, s)
      else wndproc (msg_hwnd m) (msg_message m) (msg_wParam m) (msg_lParam m)
             (log (Ev_Send (msg_hwnd m) (msg_message m)) s))"

text \<open>
  \<open>CreateWindowExA\<close>: the class is looked up by the name read from the buffer and the
  module; the new window gets the next handle (handles are numbered from 1, so none is
  null) and receives \<open>WM_NCCREATE\<close> (0 aborts the
  creation) and \<open>WM_CREATE\<close> (\<open>-1\<close> destroys it); \<open>WS_VISIBLE\<close> makes it visible.
  Position and size (\<open>CW_USEDEFAULT\<close>) are not modelled. The failure value is the null
  handle 0.
\<close>

definition new_wnd :: "string \<Rightarrow> hinstance \<Rightarrow> string \<Rightarrow> u32 \<Rightarrow> wnd" where
  "new_wnd name inst title st =
     \<lparr>wnd_class = name, wnd_instance = inst, wnd_title = title, wnd_style = st,
      wnd_visible = False, wnd_userdata = 0\<rparr>"

definition make_visible :: "hwnd \<Rightarrow> os \<Rightarrow> os" where
  "make_visible h s =
     (case windows s h of None \<Rightarrow> s
      | Some w \<Rightarrow> s\<lparr>windows := (windows s)(h \<mapsto> w\<lparr>wnd_visible := True\<rparr>)\<rparr>)"

definition create_window :: "string \<Rightarrow> string \<Rightarrow> u32 \<Rightarrow> hinstance \<Rightarrow> os \<Rightarrow> hwnd \<times> os" where
  "create_window cls title st inst s =
     (let (name, s1) = read_cstr cls s
      in if classes s1 (name, inst) = None then (0, log (Ev_CreateWindowExA name 0) s1)
      else
        (let h = Suc (next_hwnd s1);
             s2 = s1\<lparr>windows := (windows s1)(h \<mapsto> new_wnd name inst title st), next_hwnd := h\<rparr>;
             (r1, s3) = wndproc h WM_NCCREATE 0 0 (log (Ev_Send h WM_NCCREATE) s2)
         in if r1 = 0 then
              (let (_, s4) = wndproc h WM_NCDESTROY 0 0 (log (Ev_Send h WM_NCDESTROY) s3)
               in (0, log (Ev_CreateWindowExA name 0) (s4\<lparr>windows := (windows s4)(h := None)\<rparr>)))
            else
              (let (r2, s4) = wndproc h WM_CREATE 0 0 (log (Ev_Send h WM_CREATE) s3)
               in if r2 = -1 then
                    (let (_, s5) = destroy_window h s4 in (0, log (Ev_CreateWindowExA name 0) s5))
                  else if windows s4 h = None then (0, log (Ev_CreateWindowExA name 0) s4)
                  else
                    (let s5 = (if st AND WS_VISIBLE \<noteq> 0 then make_visible h s4 else s4)
                     in (h, log (Ev_CreateWindowExA name h) s5)))))"

subsection \<open>Closed forms\<close>

text \<open>What \<open>DestroyWindow\<close> does to the environment.\<close>

definition close_effect :: "hwnd \<Rightarrow> os \<Rightarrow> os" where
  "close_effect h s =
     (if windows s h = None then log (Ev_DestroyWindow h False) s
      else
        (let s' = log (Ev_Send h WM_NCDESTROY) (post_quit_message 0 (log (Ev_Send h WM_DESTROY) s))
         in log (Ev_DestroyWindow h True) (s'\<lparr>windows := (windows s')(h := None)\<rparr>)))"

text \<open>Only the windows, the quit flag and the log change under the window procedure.\<close>

definition env_frame :: "os \<Rightarrow> os \<Rightarrow> bool" where
  "env_frame s s' \<longleftrightarrow>
     module_handle s' = module_handle s \<and> arrow_cursor s' = arrow_cursor s \<and>
     entropy s' = entropy s \<and> cstr_tails s' = cstr_tails s \<and> self_slot s' = self_slot s \<and>
     classes s' = classes s \<and> next_atom s' = next_atom s \<and> next_hwnd s' = next_hwnd s \<and>
     posted s' = posted s \<and> input s' = input s \<and> stdout s' = stdout s"

text \<open>The procedure only appends to the log, and it changes the quit flag only by
  \<open>PostQuitMessage(0)\<close>, which it logs among the events it appends.\<close>

definition quit_effect :: "os \<Rightarrow> os \<Rightarrow> bool" where
  "quit_effect s s' \<longleftrightarrow>
     prefix (events s) (events s') \<and>
     (quit s' = quit s \<or>
      quit s' = Some 0 \<and> Ev_PostQuitMessage 0 \<in> set (drop (length (events s)) (events s')))"

lemma wndproc_destroy_msg: "wndproc h WM_DESTROY wp lp s = (0, post_quit_message 0 s)"
  by (subst wndproc.simps) (simp add: win32_consts)

lemma wndproc_ncdestroy_msg: "wndproc h WM_NCDESTROY wp lp s = (0, s)"
  by (subst wndproc.simps, subst def_window_proc.simps) (simp add: win32_consts)

lemma destroy_window_eq: "destroy_window h s = (windows s h \<noteq> None, close_effect h s)"
  by (subst destroy_window.simps)
     (simp add: wndproc_destroy_msg wndproc_ncdestroy_msg close_effect_def Let_def)

lemma wndproc_close_msg: "wndproc h WM_CLOSE wp lp s = (0, close_effect h s)"
  by (subst wndproc.simps) (simp add: destroy_window_eq)

lemma def_window_proc_eq:
  "def_window_proc h m wp lp s =
     (if m = WM_NCCREATE then (1, s)
      else if m = WM_CLOSE then (0, close_effect h s)
      else if m = WM_SYSCOMMAND \<and> (wp AND 0xFFF0) = SC_CLOSE then
        (0, if windows s h = None then s else close_effect h (log (Ev_Send h WM_CLOSE) s))
      else (0, s))"
  by (subst def_window_proc.simps) (simp add: destroy_window_eq wndproc_close_msg)

lemma env_frame_refl [simp]: "env_frame s s"
  by (simp add: env_frame_def)

lemma env_frame_close_effect [simp]: "env_frame s (close_effect h s)"
  by (simp add: env_frame_def close_effect_def post_quit_message_def os_simps Let_def)

lemma env_frame_log [simp]: "env_frame s (log e s)"
  by (simp add: env_frame_def os_simps)

lemma env_frame_trans: "env_frame s t \<Longrightarrow> env_frame t u \<Longrightarrow> env_frame s u"
  by (simp add: env_frame_def)

lemma wndproc_default:
  "m \<noteq> WM_CLOSE \<Longrightarrow> m \<noteq> WM_DESTROY \<Longrightarrow> wndproc h m wp lp s = def_window_proc h m wp lp s"
  by (subst wndproc.simps) simp

lemma env_frame_post_quit [simp]: "env_frame s (post_quit_message c s)"
  by (simp add: env_frame_def post_quit_message_def os_simps)

lemma env_frame_close_effect_log [simp]: "env_frame s (close_effect h (log e s))"
  by (rule env_frame_trans [OF env_frame_log env_frame_close_effect])

lemma env_frame_wndproc: "env_frame s (snd (wndproc h m wp lp s))"
  by (cases "m = WM_CLOSE"; cases "m = WM_DESTROY")
     (simp_all add: wndproc_close_msg wndproc_destroy_msg wndproc_default def_window_proc_eq)

lemma env_frame_dispatch: "env_frame s (snd (dispatch_message m s))"
  using env_frame_trans [OF env_frame_log env_frame_wndproc]
  by (simp add: dispatch_message_def)

lemma dispatch_message_queues:
  "posted (snd (dispatch_message m s)) = posted s \<and> input (snd (dispatch_message m s)) = input s"
  using env_frame_dispatch [of s m] by (simp add: env_frame_def)

lemma create_window_unregistered:
  assumes "read_cstr cls s = (name, s1)" and "classes s1 (name, inst) = None"
  shows "create_window cls title st inst s = (0, log (Ev_CreateWindowExA name 0) s1)"
  using assms by (simp add: create_window_def)

lemma create_window_registered:
  assumes "read_cstr cls s = (name, s1)" and "classes s1 (name, inst) \<noteq> None"
    and "st AND WS_VISIBLE \<noteq> 0"
  shows "create_window cls title st inst s =
           (let h = Suc (next_hwnd s1)
            in (h, log (Ev_CreateWindowExA name h)
                     (log (Ev_Send h WM_CREATE) (log (Ev_Send h WM_NCCREATE)
                        (s1\<lparr>windows := (windows s1)(h \<mapsto> (new_wnd name inst title st)\<lparr>wnd_visible := True\<rparr>),
                            next_hwnd := h\<rparr>)))))"
  using assms
  by (simp add: create_window_def wndproc_default def_window_proc_eq make_visible_def
      win32_consts os_simps Let_def)

lemma create_window_fresh:
  assumes "cstr_tails s = []" and "CHR 0x00 \<notin> set cls"
    and "classes s (cls, inst) \<noteq> None" and "st AND WS_VISIBLE \<noteq> 0"
  shows "create_window cls title st inst s =
           (let h = Suc (next_hwnd s)
            in (h, log (Ev_CreateWindowExA cls h)
                     (log (Ev_Send h WM_CREATE) (log (Ev_Send h WM_NCCREATE)
                        (s\<lparr>windows := (windows s)(h \<mapsto> (new_wnd cls inst title st)\<lparr>wnd_visible := True\<rparr>),
                           next_hwnd := h\<rparr>)))))"
  using assms by (simp add: create_window_registered read_cstr_exact)

lemma quit_effect_refl [simp]: "quit_effect s s"
  by (simp add: quit_effect_def)

lemma quit_effect_log [simp]: "quit_effect s (log e s)"
  by (simp add: quit_effect_def os_simps)

lemma quit_effect_trans:
  assumes "quit_effect s t" and "quit_effect t u"
  shows "quit_effect s u"
proof -
  obtain x where t: "events t = events s @ x" using assms(1) by (auto simp: quit_effect_def prefix_def)
  obtain y where u: "events u = events t @ y" using assms(2) by (auto simp: quit_effect_def prefix_def)
  show ?thesis using assms t u by (auto simp: quit_effect_def)
qed

lemma quit_effect_close_effect [simp]: "quit_effect s (close_effect h s)"
  by (auto simp: quit_effect_def close_effect_def post_quit_message_def os_simps Let_def)

lemma quit_effect_close_effect_log [simp]: "quit_effect s (close_effect h (log e s))"
  by (rule quit_effect_trans [OF quit_effect_log quit_effect_close_effect])

lemma quit_effect_post_quit [simp]: "quit_effect s (post_quit_message 0 s)"
  by (simp add: quit_effect_def post_quit_message_def os_simps)

lemma quit_effect_wndproc: "quit_effect s (snd (wndproc h m wp lp s))"
  by (cases "m = WM_CLOSE"; cases "m = WM_DESTROY")
     (simp_all add: wndproc_close_msg wndproc_destroy_msg wndproc_default def_window_proc_eq)

lemma quit_effect_dispatch: "quit_effect s (snd (dispatch_message m s))"
  using quit_effect_trans [OF quit_effect_log quit_effect_wndproc]
  by (simp add: dispatch_message_def)

lemma create_window_missing:
  assumes "cstr_tails s = []" and "CHR 0x00 \<notin> set cls" and "classes s (cls, inst) = None"
  shows "create_window cls title st inst s = (0, log (Ev_CreateWindowExA cls 0) s)"
  using assms by (simp add: create_window_unregistered read_cstr_exact)

lemma events_close_effect:
  "events (close_effect h s) =
     events s @ (if windows s h = None then [Ev_DestroyWindow h False]
                 else [Ev_Send h WM_DESTROY, Ev_PostQuitMessage 0, Ev_Send h WM_NCDESTROY,
                       Ev_DestroyWindow h True])"
  by (simp add: close_effect_def post_quit_message_def os_simps Let_def)

lemma dispatch_sc_close:
  assumes "windows s (msg_hwnd m) \<noteq> None" and "msg_message m = WM_SYSCOMMAND"
    and "msg_wParam m AND 0xFFF0 = SC_CLOSE"
  shows "snd (dispatch_message m s) =
           close_effect (msg_hwnd m) (log (Ev_Send (msg_hwnd m) WM_CLOSE) (log (Ev_Send (msg_hwnd m) WM_SYSCOMMAND) s))"
  using assms
  by (auto simp: dispatch_message_def wndproc_default def_window_proc_eq wndproc_close_msg
      win32_consts os_simps)

lemma create_window_queues:
  "posted (snd (create_window cls t st inst s)) = posted s \<and> quit (snd (create_window cls t st inst s)) = quit s \<and>
   input (snd (create_window cls t st inst s)) = input s \<and>
   stdout (snd (create_window cls t st inst s)) = stdout s"
proof -
  obtain name s1 where rd: "read_cstr cls s = (name, s1)" by (cases "read_cstr cls s")
  then have s1: "s1 = s\<lparr>cstr_tails := drop 1 (cstr_tails s)\<rparr>" by (rule read_cstr_frame)
  show ?thesis
    using rd s1
    by (simp add: create_window_def wndproc_default def_window_proc_eq make_visible_def
        win32_consts os_simps Let_def split: option.split)
qed

subsection \<open>Properties\<close>

text \<open>C4. Close-to-destroy chain: \<open>WM_CLOSE\<close> for a live window makes \<open>DestroyWindow\<close>
  send \<open>WM_DESTROY\<close> to the same window before the call returns; that posts the quit
  signal, then \<open>WM_NCDESTROY\<close> is sent and the window is gone. Nothing else changes.\<close>

theorem wndproc_close_chain:
  assumes "windows s h \<noteq> None"
  shows "wndproc h WM_CLOSE wp lp s =
           (0, s\<lparr>windows := (windows s)(h := None), quit := Some 0,
                 events := events s @ [Ev_Send h WM_DESTROY, Ev_PostQuitMessage 0,
                                       Ev_Send h WM_NCDESTROY, Ev_DestroyWindow h True]\<rparr>)"
  using assms
  by (subst wndproc.simps)
     (auto simp: destroy_window_eq close_effect_def post_quit_message_def os_simps Let_def)

end
