(* ===== verification/Uuid.thy ===== *)
theory Uuid
  imports Prelude
begin

text \<open>
  The class name of a window is \<open>Uuid::new_v4().hyphenated().to_string()\<close>
  (\<open>src/src/lib.rs\<close>, line 60). This theory models the two library calls as the
  \<open>uuid\<close> crate defines them: \<open>new_v4\<close> draws 16 random bytes (it panics when the
  OS random source fails) and stamps the version (4) into the high nibble of byte 6 and
  the RFC 4122 variant (binary 10) into the two high bits of byte 8; \<open>hyphenated\<close>
  prints the 128-bit value, most significant nibble first, as 32 lowercase hex digits in
  groups of 8, 4, 4, 4 and 12 separated by hyphens. The value is a \<open>128 word\<close> read
  big-endian, so byte \<open>i\<close> is bits \<open>127 - 8 i\<close> down to \<open>120 - 8 i\<close>.
  The lemmas give what the rest of the development needs of the printed name: it has 36
  characters and no NUL byte (every nibble is below 16, so every digit is a hex digit).
\<close>

definition uuid_from_random :: "u128 \<Rightarrow> u128" where
  "uuid_from_random r =
     (((r AND NOT (push_bit 76 0xF)) OR push_bit 76 0x4) AND NOT (push_bit 62 0x3)) OR push_bit 62 0x2"

text \<open>The supply of random values is threaded through: the first one is consumed.\<close>

definition new_v4 :: "u128 list \<Rightarrow> u128 outcome \<times> u128 list" where
  "new_v4 rs =
     (case rs of
        [] \<Rightarrow> (Panic ''could not retrieve random bytes for uuid'', [])
      | r # rs' \<Rightarrow> (Return (uuid_from_random r), rs'))"

definition hex_digit :: "nat \<Rightarrow> char" where
  "hex_digit n = (if n < 10 then char_of (48 + n) else char_of (87 + n))"

definition nibble :: "u128 \<Rightarrow> nat \<Rightarrow> nat" where
  "nibble u i = unat (drop_bit (4 * i) u AND 0xF)"

definition hex_string :: "u128 \<Rightarrow> string" where
  "hex_string u = map (\<lambda>i. hex_digit (nibble u (31 - i))) [0..<32]"

definition hyphenated :: "u128 \<Rightarrow> string" where
  "hyphenated u =
     (let d = hex_string u
      in take 8 d @ ''-'' @ take 4 (drop 8 d) @ ''-'' @ take 4 (drop 12 d) @ ''-''
         @ take 4 (drop 16 d) @ ''-'' @ drop 20 d)"

lemma nibble_lt_16: "nibble u i < 16"
proof -
  have "unat (drop_bit (4 * i) u AND 0xF) \<le> unat (0xF :: u128)"
    by (rule word_and_le1 [THEN word_le_nat_alt [THEN iffD1]])
  then show ?thesis by (simp add: nibble_def)
qed

lemma hex_digit_not_nul: "n < 16 \<Longrightarrow> hex_digit n \<noteq> CHR 0x00"
proof
  assume n: "n < 16" and eq: "hex_digit n = CHR 0x00"
  then have "of_char (hex_digit n) = (0::nat)" by simp
  with n show False by (simp add: hex_digit_def split: if_splits)
qed

lemma length_hex_string [simp]: "length (hex_string u) = 32"
  by (simp add: hex_string_def)

lemma nul_not_in_hex_string: "CHR 0x00 \<notin> set (hex_string u)"
proof
  assume "CHR 0x00 \<in> set (hex_string u)"
  then obtain i where "hex_digit (nibble u (31 - i)) = CHR 0x00"
    by (auto simp: hex_string_def)
  with hex_digit_not_nul [OF nibble_lt_16] show False by blast
qed

lemma length_hyphenated: "length (hyphenated u) = 36"
  by (simp add: hyphenated_def Let_def)

lemma nul_not_in_hyphenated: "CHR 0x00 \<notin> set (hyphenated u)"
  using nul_not_in_hex_string [of u]
  by (auto simp: hyphenated_def Let_def dest: in_set_takeD in_set_dropD)

lemma hyphenated_nonempty: "hyphenated u \<noteq> []"
  using length_hyphenated [of u] by auto

end
