(* ===== verification/Window.thy ===== *)
theory Window
  imports WndProc Uuid
begin

text \<open>
  \<open>struct Window\<close> and its methods (\<open>src/src/lib.rs\<close>): the state record, \<open>new\<close>,
  \<open>initialize\<close>, \<open>show\<close>, the message pump \<open>process_messages\<close> and the destructor
  \<open>Drop::drop\<close>. Each method takes the window and the environment and returns its
  outcome (a value or a panic) with the window and environment it leaves; a method that
  takes \<open>&self\<close> returns no window. The pump stops either by returning (on \<open>WM_QUIT\<close>) or
  by blocking in \<open>GetMessageA\<close> when no message and no input is left.
\<close>

subsection \<open>State\<close>

text \<open>\<open>instance'\<close> is the field \<open>instance\<close> (a keyword of Isabelle).\<close>

record window =
  handle :: "hwnd option"
  class_str :: string
  atom :: "u16 option"
  instance' :: "hinstance option"
  initialized :: bool

definition new :: window where
  "new = \<lparr>handle = None, class_str = [], atom = None, instance' = None, initialized = False\<rparr>"

subsection \<open>Methods\<close>

text \<open>\<open>show\<close> (lines 27--31) unwraps the handle: it panics on a window that was never
  initialized. \<open>show'\<close> is its name here (\<open>show\<close> is a keyword).\<close>

definition show' :: "window \<Rightarrow> os \<Rightarrow> unit outcome \<times> os" where
  "show' w s =
     (case handle w of
        None \<Rightarrow> (Panic unwrap_none_msg, s)
      | Some h \<Rightarrow> (Return (), snd (show_window h SW_NORMAL s)))"

text \<open>
  \<open>initialize\<close> (lines 49--95). The struct literal \<open>WNDCLASSA { .. }\<close> evaluates its
  fields in order, so \<open>LoadCursorW(..).unwrap()\<close> panics before
  \<open>self.instance.clone().unwrap()\<close> does. The two later unwraps of \<open>self.instance\<close> and
  \<open>self.handle\<close> cannot fail (both fields were just set to \<open>Some\<close>); the model passes their
  contents. \<open>RegisterClassA\<close> and \<open>CreateWindowExA\<close> get the class name as
  \<open>PCSTR(self.class_str.clone().as_ptr())\<close>; \<open>"Sample Window"\<close> is converted by the
  crate into a NUL-terminated string. \<open>class_ptr\<close> is \<open>transmute(&self)\<close>, the address of
  the parameter slot.
\<close>

definition window_class :: "nat \<Rightarrow> hinstance \<Rightarrow> string \<Rightarrow> wndclassa" where
  "window_class cur inst name =
     \<lparr>hCursor = cur, hInstance = inst, lpszClassName = name, style = CS_HREDRAW OR CS_VREDRAW\<rparr>"

definition initialize :: "window \<Rightarrow> os \<Rightarrow> (string + unit) outcome \<times> window \<times> os" where
  "initialize w s =
     (if initialized w then (Return (Inl ''Window already initialized''), w, s)
      else
        (let w1 = w\<lparr>instance' := (case get_module_handle s of Inr i \<Rightarrow> Some i | Inl _ \<Rightarrow> None)\<rparr>;
             (u, rs) = new_v4 (entropy s);
             s1 = s\<lparr>entropy := rs\<rparr>
         in case u of
              Panic e \<Rightarrow> (Panic e, w1, s1)
            | Return uuid \<Rightarrow>
                (let w2 = w1\<lparr>class_str := hyphenated uuid\<rparr>
                 in case load_cursor s1 of
                      Inl _ \<Rightarrow> (Panic unwrap_err_msg, w2, s1)
                    | Inr cur \<Rightarrow>
                        (case instance' w2 of
                           None \<Rightarrow> (Panic unwrap_none_msg, w2, s1)
                         | Some inst \<Rightarrow>
                             (let (a, s2) = register_class (window_class cur inst (class_str w2)) s1;
                                  w3 = w2\<lparr>atom := Some a\<rparr>;
                                  (h, s3) = create_window (class_str w3) ''Sample Window''
                                              (WS_OVERLAPPEDWINDOW OR WS_VISIBLE) inst s2;
                                  w4 = w3\<lparr>handle := Some h\<rparr>;
                                  class_ptr = self_slot s3;
                                  s4 = println (show_int class_ptr) s3;
                                  (_, s5) = set_window_long_ptr h GWLP_USERDATA class_ptr s4
                              in (Return (Inr ()), w4\<lparr>initialized := True\<rparr>, s5))))))"

text \<open>
  \<open>process_messages\<close> (lines 106--124): the loop
  \<open>GetMessageA\<close> / \<open>TranslateMessage\<close> / \<open>DispatchMessageA\<close> until \<open>GetMessageA\<close> returns 0,
  then \<open>println!("WM_QUIT")\<close>. \<open>Blocked\<close> is a pump that waits in \<open>GetMessageA\<close> for
  input that does not come: the call has not returned. The method does not read
  \<open>self\<close>.
\<close>

datatype pump_result = Returned os | Blocked os

function process_messages :: "os \<Rightarrow> pump_result" where
  "process_messages s =
     (case get_message s of
        None \<Rightarrow> Blocked s
      | Some (gm_result, m, s1) \<Rightarrow>
          if gm_result \<noteq> 0
          then process_messages (snd (dispatch_message m (translate_message m s1)))
          else Returned (println ''WM_QUIT'' s1))"
  by pat_completeness auto
termination
  by (relation "measure (\<lambda>s. length (posted s) + length (input s))")
     (auto simp: translate_message_def dispatch_message_queues dest: get_message_length)

declare process_messages.simps [simp del]

text \<open>
  \<open>Drop::drop\<close> (lines 127--140): destroy the window if a handle is stored, then
  unregister the class if an atom is stored, unwrapping \<open>self.instance\<close>. The class name
  is passed as \<open>PCSTR(self.class_str.as_ptr())\<close>. Neither Win32 result is checked.
\<close>

definition drop_window :: "window \<Rightarrow> os \<Rightarrow> unit outcome \<times> os" where
  "drop_window w s =
     (let s1 = (case handle w of None \<Rightarrow> s | Some h \<Rightarrow> snd (destroy_window h s))
      in case atom w of
           None \<Rightarrow> (Return (), s1)
         | Some _ \<Rightarrow>
             (case instance' w of
                None \<Rightarrow> (Panic unwrap_none_msg, s1)
              | Some inst \<Rightarrow> (Return (), snd (unregister_class (class_str w) inst s1))))"

subsection \<open>Invariant\<close>

text \<open>
  What every method keeps true of the fields: an atom is stored only once the module
  handle is, an atom exactly when a window handle is (\<open>initialize\<close> stores both with no
  call in between that can panic), and the window counts as initialized exactly when it
  holds a handle. The first conjunct is what makes the \<open>unwrap\<close> in
  \<open>drop\<close> safe.
\<close>

definition window_inv :: "window \<Rightarrow> bool" where
  "window_inv w \<longleftrightarrow>
     (atom w \<noteq> None \<longrightarrow> instance' w \<noteq> None) \<and>
     (handle w \<noteq> None \<longleftrightarrow> atom w \<noteq> None) \<and>
     (initialized w \<longleftrightarrow> handle w \<noteq> None)"

lemma window_inv_new: "window_inv new"
  by (simp add: window_inv_def new_def)

lemma initialize_window_inv: "window_inv w \<Longrightarrow> window_inv (fst (snd (initialize w s)))"
  by (auto simp: initialize_def window_inv_def Let_def
           split: prod.splits outcome.splits sum.splits option.splits)

lemma drop_window_no_panic: "window_inv w \<Longrightarrow> fst (drop_window w s) = Return ()"
  by (auto simp: drop_window_def window_inv_def Let_def split: option.splits)

text \<open>C1. Initialization on a fresh window, in an environment where every call succeeds
  (module handle and cursor available, a random value for the UUID, a NUL after each string
  buffer, a free atom, the UUID name not yet registered): \<open>initialize\<close> returns
  \<open>Ok(())\<close>, registers the class under the hyphenated UUID with the next atom, creates a
  visible window of that class under the next handle, stores \<open>class_ptr\<close> in its user data
  and prints it, and records handle, class name, atom and module in the window; the log
  shows the calls in the order of the code.\<close>

theorem initialize_creates_window:
  assumes "\<not> initialized w" and "module_handle s = Some inst" and "arrow_cursor s = Some cur"
    and "entropy s = r # rs" and "cstr_tails s = []" and "next_atom s \<noteq> 0"
    and "classes s (hyphenated (uuid_from_random r), inst) = None"
  shows "initialize w s =
     (let name = hyphenated (uuid_from_random r); a = next_atom s; h = Suc (next_hwnd s)
      in (Return (Inr ()),
          w\<lparr>instance' := Some inst, class_str := name, atom := Some a, handle := Some h,
            initialized := True\<rparr>,
          s\<lparr>entropy := rs,
            classes := (classes s)((name, inst) \<mapsto> a), next_atom := a + 1,
            windows := (windows s)(h \<mapsto> (new_wnd name inst ''Sample Window'' (WS_OVERLAPPEDWINDOW OR WS_VISIBLE))
                                      \<lparr>wnd_visible := True, wnd_userdata := self_slot s\<rparr>),
            next_hwnd := h,
            stdout := stdout s @ [show_int (self_slot s)],
            events := events s @ [Ev_RegisterClassA name a, Ev_Send h WM_NCCREATE, Ev_Send h WM_CREATE,
                                  Ev_CreateWindowExA name h, Ev_SetWindowLongPtrA h (self_slot s)]\<rparr>))"
proof -
  have vis: "(WS_OVERLAPPEDWINDOW OR WS_VISIBLE) AND WS_VISIBLE \<noteq> 0"
    by (simp add: win32_consts)
  show ?thesis
    using assms vis nul_not_in_hyphenated length_hyphenated hyphenated_nonempty
    by (simp add: initialize_def get_module_handle_def load_cursor_def new_v4_def window_class_def
        register_class_fresh create_window_fresh set_window_long_ptr_def os_simps Let_def)
qed

lemma initialize_ok_initialized:
  "fst (initialize w s) = Return (Inr ()) \<Longrightarrow> initialized (fst (snd (initialize w s)))"
  unfolding initialize_def Let_def
  by (auto split: if_splits prod.splits outcome.splits sum.splits option.splits)

lemma process_messages_step:
  "get_message s = Some (r, m, s1) \<Longrightarrow> r \<noteq> 0 \<Longrightarrow>
     process_messages s = process_messages (snd (dispatch_message m (translate_message m s1)))"
  by (subst process_messages.simps) simp

lemma process_messages_quit_msg:
  "get_message s = Some (0, m, s1) \<Longrightarrow> process_messages s = Returned (println ''WM_QUIT'' s1)"
  by (subst process_messages.simps) simp

lemma process_messages_events:
  "process_messages s = Returned s' \<Longrightarrow> prefix (events s) (events s')"
proof (induction s rule: process_messages.induct)
  case (1 s)
  show ?case
  proof (cases "get_message s")
    case None
    with "1.prems" show ?thesis by (simp add: process_messages.simps)
  next
    case (Some x)
    then obtain r m s1 where gm: "get_message s = Some (r, m, s1)" by (cases x) auto
    have ev1: "events s1 = events s" by (rule get_message_events [OF gm])
    show ?thesis
    proof (cases "r = 0")
      case True
      with gm "1.prems" have "s' = println ''WM_QUIT'' s1"
        by (simp add: process_messages_quit_msg)
      with ev1 show ?thesis by (simp add: println_def)
    next
      case False
      let ?s2 = "snd (dispatch_message m (translate_message m s1))"
      have ret: "process_messages ?s2 = Returned s'"
        using "1.prems" process_messages_step [OF gm False] by simp
      then have "prefix (events ?s2) (events s')"
        using "1.IH" gm False by fastforce
      moreover have "quit_effect s1 ?s2"
        using quit_effect_dispatch by (simp add: translate_message_def)
      ultimately show ?thesis
        using ev1 by (auto simp: quit_effect_def dest: prefix_order.trans)
    qed
  qed
qed

lemma initialize_panic:
  assumes "initialize w s = (Panic e, w', s')" and "\<not> initialized w"
  shows "handle w' = handle w \<and> atom w' = atom w \<and> classes s' = classes s \<and>
         windows s' = windows s \<and> events s' = events s \<and> stdout s' = stdout s"
  using assms unfolding initialize_def Let_def
  by (auto split: prod.splits outcome.splits sum.splits option.splits)

lemma initialize_ok_handle:
  assumes "window_inv w" and "fst (initialize w s) = Return (Inr ())"
  shows "handle (fst (snd (initialize w s))) \<noteq> None"
  using initialize_window_inv [OF assms(1), of s] initialize_ok_initialized [OF assms(2)]
  unfolding window_inv_def by blast

lemma initialize_rejected:
  "initialize w s = (Return (Inl e), w', s') \<Longrightarrow> initialized w \<and> w' = w \<and> s' = s"
  unfolding initialize_def Let_def
  by (auto split: if_splits prod.splits outcome.splits sum.splits option.splits)

lemma initialize_initialized:
  "initialized w \<Longrightarrow> initialize w s = (Return (Inl ''Window already initialized''), w, s)"
  by (simp add: initialize_def)

lemma initialize_panic_initialized:
  "initialize w s = (Panic e, w', s') \<Longrightarrow> initialized w' = initialized w"
  unfolding initialize_def Let_def
  by (auto split: if_splits prod.splits outcome.splits sum.splits option.splits)

lemma show'_handle: "show' w s = (Return (), s') \<Longrightarrow> handle w \<noteq> None"
  by (simp add: show'_def split: option.splits)

lemma show'_initialized: "window_inv w \<Longrightarrow> initialized w \<Longrightarrow> \<exists>s'. show' w s = (Return (), s')"
  by (auto simp: show'_def window_inv_def)

subsection \<open>Properties\<close>

text \<open>C2. Initialization happens at most once: after an \<open>initialize\<close> that returned
  \<open>Ok(())\<close>, every further call returns \<open>Err("Window already initialized")\<close> and changes
  neither the window nor the environment.\<close>

theorem initialize_second_call:
  assumes "fst (initialize w s) = Return (Inr ())"
  shows "initialize (fst (snd (initialize w s))) t =
           (Return (Inl ''Window already initialized''), fst (snd (initialize w s)), t)"
  using initialize_ok_initialized [OF assms] by (simp add: initialize_def)

text \<open>C6. Message-loop termination: when the next input is \<open>WM_CLOSE\<close> for a live window
  and no quit is pending, the pump dispatches it, the next \<open>GetMessageA\<close> reports the quit,
  and \<open>process_messages\<close> returns, leaving the rest of the input unread and the window
  destroyed.\<close>

theorem process_messages_close_returns:
  assumes "posted s = []" and "quit s = None" and "input s = m # rest"
    and "msg_message m = WM_CLOSE" and "windows s (msg_hwnd m) \<noteq> None"
  shows "\<exists>s'. process_messages s = Returned s' \<and> windows s' (msg_hwnd m) = None \<and>
              input s' = rest \<and> quit s' = None \<and> stdout s' = stdout s @ [''WM_QUIT'']"
proof -
  let ?s1 = "s\<lparr>input := rest\<rparr>"
  let ?s2 = "snd (dispatch_message m (translate_message m ?s1))"
  have "get_message s = Some (1, m, ?s1)"
    using assms by (simp add: get_message_def)
  then have step: "process_messages s = process_messages ?s2"
    by (rule process_messages_step) simp
  have s2: "posted ?s2 = [] \<and> quit ?s2 = Some 0 \<and> windows ?s2 (msg_hwnd m) = None \<and>
            input ?s2 = rest \<and> stdout ?s2 = stdout s"
    using assms
    by (simp add: dispatch_message_def translate_message_def wndproc_close_msg close_effect_def
        post_quit_message_def os_simps Let_def)
  then have "get_message ?s2 = Some (0, quit_msg 0, ?s2\<lparr>quit := None\<rparr>)"
    by (simp add: get_message_def)
  then have "process_messages ?s2 = Returned (println ''WM_QUIT'' (?s2\<lparr>quit := None\<rparr>))"
    by (rule process_messages_quit_msg)
  with step s2 show ?thesis by (simp add: println_def)
qed

text \<open>C7. The pump never returns before a shutdown signal: if it returns, a quit was
  already pending when it started, or \<open>PostQuitMessage(0)\<close> was called while it ran
  (the call is among the events logged after the pump started).\<close>

theorem process_messages_returns_after_quit:
  "process_messages s = Returned s' \<Longrightarrow>
     (\<exists>c. quit s = Some c) \<or> Ev_PostQuitMessage 0 \<in> set (drop (length (events s)) (events s'))"
proof (induction s rule: process_messages.induct)
  case (1 s)
  show ?case
  proof (cases "get_message s")
    case None
    with "1.prems" show ?thesis by (simp add: process_messages.simps)
  next
    case (Some x)
    then obtain r m s1 where gm: "get_message s = Some (r, m, s1)" by (cases x) auto
    show ?thesis
    proof (cases "r = 0")
      case True
      with gm show ?thesis using get_message_quit by blast
    next
      case False
      let ?s2 = "snd (dispatch_message m (translate_message m s1))"
      have ret: "process_messages ?s2 = Returned s'"
        using "1.prems" process_messages_step [OF gm False] by simp
      have g: "quit s1 = quit s \<and> events s1 = events s" by (rule get_message_msg [OF gm False])
      have qe: "quit_effect s1 ?s2"
        using quit_effect_dispatch by (simp add: translate_message_def)
      obtain z where z: "events s' = events ?s2 @ z"
        using process_messages_events [OF ret] by (auto simp: prefix_def)
      obtain y where y: "events ?s2 = events s1 @ y"
        using qe by (auto simp: quit_effect_def prefix_def)
      have d: "drop (length (events s)) (events s') = y @ z" using z y g by simp
      have "(\<exists>c. quit ?s2 = Some c) \<or> Ev_PostQuitMessage 0 \<in> set (drop (length (events ?s2)) (events s'))"
        using "1.IH" gm False ret by fastforce
      then show ?thesis
        using qe g d y z by (auto simp: quit_effect_def)
    qed
  qed
qed

text \<open>C8. Ordered teardown: dropping an initialized window first destroys the window
  (with the \<open>WM_DESTROY\<close> chain when it is still alive) and only then calls
  \<open>UnregisterClassA\<close> with the class name; nothing else is logged.\<close>

theorem drop_window_destroys_then_unregisters:
  assumes "handle w = Some h" and "atom w = Some a" and "instance' w = Some inst"
  shows "\<exists>b. events (snd (drop_window w s)) =
           events s @ (if windows s h = None then [Ev_DestroyWindow h False]
                       else [Ev_Send h WM_DESTROY, Ev_PostQuitMessage 0, Ev_Send h WM_NCDESTROY,
                             Ev_DestroyWindow h True])
           @ [Ev_UnregisterClassA (fst (read_cstr (class_str w) s)) b]"
proof -
  have "cstr_tails (close_effect h s) = cstr_tails s"
    using env_frame_close_effect [of s h] by (simp add: env_frame_def)
  then have rd: "fst (read_cstr (class_str w) (close_effect h s)) = fst (read_cstr (class_str w) s)"
    by (rule read_cstr_same_tails)
  obtain b where "events (snd (unregister_class (class_str w) inst (close_effect h s))) =
      events (close_effect h s) @ [Ev_UnregisterClassA (fst (read_cstr (class_str w) (close_effect h s))) b]"
    using unregister_class_events by blast
  then show ?thesis
    using assms rd by (simp add: drop_window_def destroy_window_eq events_close_effect)
qed

text \<open>C9. Unchecked registration (a divergence from the spec's error design): when the
  atom table is exhausted, \<open>RegisterClassA\<close> and then \<open>CreateWindowExA\<close> fail, yet
  \<open>initialize\<close> returns \<open>Ok(())\<close>, marks the window initialized and stores the failure
  values 0 as atom and handle; no class and no window exist.\<close>

theorem initialize_ok_without_class:
  assumes "\<not> initialized w" and "module_handle s = Some inst" and "arrow_cursor s = Some cur"
    and "entropy s = r # rs" and "cstr_tails s = []" and "next_atom s = 0"
    and "classes s (hyphenated (uuid_from_random r), inst) = None" and "windows s 0 = None"
  shows "initialize w s =
     (let name = hyphenated (uuid_from_random r)
      in (Return (Inr ()),
          w\<lparr>instance' := Some inst, class_str := name, atom := Some 0, handle := Some 0,
            initialized := True\<rparr>,
          s\<lparr>entropy := rs, stdout := stdout s @ [show_int (self_slot s)],
            events := events s @ [Ev_RegisterClassA name 0, Ev_CreateWindowExA name 0]\<rparr>))"
  using assms nul_not_in_hyphenated
  by (simp add: initialize_def get_module_handle_def load_cursor_def new_v4_def window_class_def
      register_class_exhausted create_window_missing set_window_long_ptr_def os_simps Let_def)

text \<open>C10. Teardown after a failed registration (a divergence from the spec, which says
  the class is never unregistered when registration did not succeed): \<open>drop\<close> calls
  \<open>DestroyWindow\<close> on the null handle and \<open>UnregisterClassA\<close> on the class that was
  never registered; both fail and are ignored.\<close>

theorem drop_window_after_failed_registration:
  assumes "handle w = Some 0" and "atom w = Some 0" and "instance' w = Some inst"
    and "windows s 0 = None" and "cstr_tails s = []" and "CHR 0x00 \<notin> set (class_str w)"
    and "classes s (class_str w, inst) = None"
  shows "drop_window w s =
           (Return (), s\<lparr>events := events s @ [Ev_DestroyWindow 0 False,
                                               Ev_UnregisterClassA (class_str w) False]\<rparr>)"
  using assms
  by (simp add: drop_window_def destroy_window_eq close_effect_def unregister_class_def
      read_cstr_exact os_simps)

text \<open>C5. Idempotent destroy: when the window was already destroyed (by the
  \<open>WM_CLOSE\<close> handler), the \<open>DestroyWindow\<close> in \<open>drop\<close> fails and changes nothing but
  the log; \<open>drop\<close> then goes on exactly as for a window that never had a handle.\<close>

theorem drop_window_dead_handle:
  assumes "handle w = Some h" and "windows s h = None"
  shows "drop_window w s = drop_window (w\<lparr>handle := None\<rparr>) (log (Ev_DestroyWindow h False) s)"
  using assms
  by (simp add: drop_window_def destroy_window_eq close_effect_def Let_def split: option.split)

text \<open>C11. The class name buffer has no terminating NUL (\<open>PCSTR(String::as_ptr())\<close>):
  if the byte after the buffer is NUL when \<open>RegisterClassA\<close> reads it but not when
  \<open>CreateWindowExA\<close> reads its fresh clone, the class is registered under the UUID while
  the creation looks up the UUID followed by stray bytes and fails; \<open>initialize\<close> still
  returns \<open>Ok(())\<close>, with a valid atom and the null handle.\<close>

theorem initialize_unterminated_name:
  assumes "\<not> initialized w" and "module_handle s = Some inst" and "arrow_cursor s = Some cur"
    and "entropy s = r # rs" and "cstr_tails s = [[], t]" and "t \<noteq> []" and "CHR 0x00 \<notin> set t"
    and "next_atom s \<noteq> 0" and "classes s (hyphenated (uuid_from_random r), inst) = None"
    and "classes s (hyphenated (uuid_from_random r) @ t, inst) = None" and "windows s 0 = None"
  shows "fst (initialize w s) = Return (Inr ()) \<and> handle (fst (snd (initialize w s))) = Some 0 \<and>
         atom (fst (snd (initialize w s))) = Some (next_atom s) \<and>
         classes (snd (snd (initialize w s))) (hyphenated (uuid_from_random r), inst) = Some (next_atom s) \<and>
         windows (snd (snd (initialize w s))) = windows s"
proof -
  let ?n = "hyphenated (uuid_from_random r)"
  have nul: "CHR 0x00 \<notin> set ?n" by (rule nul_not_in_hyphenated)
  have rd1: "read_cstr ?n (s\<lparr>entropy := rs\<rparr>) = (?n, s\<lparr>entropy := rs, cstr_tails := [t]\<rparr>)"
    using read_cstr_tail [of "s\<lparr>entropy := rs\<rparr>" "[]" "[t]" ?n] assms(5) nul by simp
  have rd2: "read_cstr ?n s' = (?n @ t, s'\<lparr>cstr_tails := []\<rparr>)" if "cstr_tails s' = [t]" for s'
    using read_cstr_tail [of s' t "[]" ?n] that nul assms(7) by simp
  show ?thesis
    using assms rd1 length_hyphenated hyphenated_nonempty
    by (simp add: initialize_def get_module_handle_def load_cursor_def new_v4_def window_class_def
        register_class_new create_window_unregistered rd2 set_window_long_ptr_def os_simps Let_def)
qed

text \<open>C18. Closing from the system menu or the close box: when the next input is
  \<open>WM_SYSCOMMAND\<close> with \<open>SC_CLOSE\<close> for a live window, \<open>wndproc\<close> passes it to
  \<open>DefWindowProcA\<close>, which sends \<open>WM_CLOSE\<close>; the \<open>WM_CLOSE\<close> arm destroys the
  window, \<open>WM_DESTROY\<close> posts the quit, and the pump returns with the window gone and the
  sends logged in that order.\<close>

theorem process_messages_sc_close_returns:
  assumes "posted s = []" and "quit s = None" and "input s = m # rest"
    and "msg_message m = WM_SYSCOMMAND" and "msg_wParam m AND 0xFFF0 = SC_CLOSE"
    and "windows s (msg_hwnd m) \<noteq> None"
  shows "\<exists>s'. process_messages s = Returned s' \<and> windows s' (msg_hwnd m) = None \<and>
              input s' = rest \<and> quit s' = None \<and> stdout s' = stdout s @ [''WM_QUIT''] \<and>
              events s' = events s @ [Ev_Send (msg_hwnd m) WM_SYSCOMMAND, Ev_Send (msg_hwnd m) WM_CLOSE,
                Ev_Send (msg_hwnd m) WM_DESTROY, Ev_PostQuitMessage 0, Ev_Send (msg_hwnd m) WM_NCDESTROY,
                Ev_DestroyWindow (msg_hwnd m) True]"
proof -
  let ?s1 = "s\<lparr>input := rest\<rparr>"
  let ?s2 = "snd (dispatch_message m (translate_message m ?s1))"
  have "get_message s = Some (1, m, ?s1)"
    using assms by (simp add: get_message_def)
  then have step: "process_messages s = process_messages ?s2"
    by (rule process_messages_step) simp
  have s2: "posted ?s2 = [] \<and> quit ?s2 = Some 0 \<and> windows ?s2 (msg_hwnd m) = None \<and>
            input ?s2 = rest \<and> stdout ?s2 = stdout s \<and>
            events ?s2 = events s @ [Ev_Send (msg_hwnd m) WM_SYSCOMMAND, Ev_Send (msg_hwnd m) WM_CLOSE,
                Ev_Send (msg_hwnd m) WM_DESTROY, Ev_PostQuitMessage 0, Ev_Send (msg_hwnd m) WM_NCDESTROY,
                Ev_DestroyWindow (msg_hwnd m) True]"
    using assms
    by (simp add: translate_message_def dispatch_sc_close close_effect_def post_quit_message_def
        os_simps Let_def)
  then have "get_message ?s2 = Some (0, quit_msg 0, ?s2\<lparr>quit := None\<rparr>)"
    by (simp add: get_message_def)
  then have "process_messages ?s2 = Returned (println ''WM_QUIT'' (?s2\<lparr>quit := None\<rparr>))"
    by (rule process_messages_quit_msg)
  with step s2 show ?thesis by (simp add: println_def)
qed

end
