(* ===== verification/App.thy ===== *)
theory App
  imports Window
begin

text \<open>
  The entry point \<open>main\<close> of \<open>src/bin/app.rs\<close>: construct a window, initialize it and,
  only on \<open>Ok(())\<close>, show it and run the message pump; the window is dropped when
  \<open>main\<close> returns, and also while a panic unwinds out of \<open>main\<close>. A panic in the
  destructor during unwinding aborts the process.
\<close>

datatype app_result =
    Exited os
  | Hung os
  | Panicked string os
  | Aborted string os

text \<open>\<open>win\<close> leaves scope normally (\<open>finish\<close>) or during a panic (\<open>unwind\<close>).\<close>

definition finish :: "window \<Rightarrow> os \<Rightarrow> app_result" where
  "finish w s = (case drop_window w s of (Return _, s') \<Rightarrow> Exited s' | (Panic e, s') \<Rightarrow> Panicked e s')"

definition unwind :: "string \<Rightarrow> window \<Rightarrow> os \<Rightarrow> app_result" where
  "unwind e w s = (case drop_window w s of (Return _, s') \<Rightarrow> Panicked e s' | (Panic e', s') \<Rightarrow> Aborted e' s')"

definition main :: "os \<Rightarrow> app_result" where
  "main s =
     (let win = new;
          (r, win1, s1) = initialize win s
      in case r of
           Panic e \<Rightarrow> unwind e win1 s1
         | Return (Inl _) \<Rightarrow> finish win1 s1
         | Return (Inr _) \<Rightarrow>
             (case show' win1 s1 of
                (Panic e, s2) \<Rightarrow> unwind e win1 s2
              | (Return _, s2) \<Rightarrow>
                  (case process_messages s2 of
                     Blocked s3 \<Rightarrow> Hung s3
                   | Returned s3 \<Rightarrow> finish win1 s3)))"

end
