(* ===== verification/Lifecycle.thy ===== *)
theory Lifecycle
  imports Window
begin

text \<open>
  The lifecycle state machine of the specification (section 4.2): \<open>Uninitialized\<close>,
  \<open>Initialized\<close>, \<open>Running\<close>, \<open>Terminated\<close> and the absorbing \<open>Failed\<close>, as an
  abstract step relation \<open>lc_step\<close>. The code keeps no such state: \<open>struct Window\<close> has
  only the flag \<open>initialized\<close>, and \<open>process_messages\<close> does not read \<open>self\<close>. The
  concrete side is a caller of the library that makes the calls of \<open>src/bin/app.rs\<close> in
  any order the thread allows (\<open>client_step\<close>): \<open>initialize\<close>, \<open>show\<close>, and the pump
  one \<open>GetMessageA\<close> round at a time, while input arrives. Its \<open>phase\<close> is a history
  variable recording where the thread is (idle, in the pump, back from the pump, or
  unwinding from a panic); it is read by the abstraction \<open>lc_abs\<close> and by no operation.
\<close>

subsection \<open>The specified lifecycle\<close>

datatype lc_state = Uninitialized | Initialized | Running | Terminated | Failed

datatype lc_event =
    Init_ok | Init_rejected | Init_failed | Show_ev
  | Pump_start | Pump_dispatch | Pump_quit | Input_ev

inductive lc_step :: "lc_state \<Rightarrow> lc_event \<Rightarrow> lc_state \<Rightarrow> bool" where
  lc_init: "lc_step Uninitialized Init_ok Initialized"
| lc_init_failed: "lc_step Uninitialized Init_failed Failed"
| lc_init_rejected: "st \<noteq> Uninitialized \<Longrightarrow> lc_step st Init_rejected st"
| lc_show_initialized: "lc_step Initialized Show_ev Initialized"
| lc_show_running: "lc_step Running Show_ev Running"
| lc_pump_start: "lc_step Initialized Pump_start Running"
| lc_pump_dispatch: "lc_step Running Pump_dispatch Running"
| lc_pump_quit: "lc_step Running Pump_quit Terminated"
| lc_input: "lc_step st Input_ev st"

text \<open>A run of the specified machine: the states it passes through under a sequence of
  events.\<close>

inductive lc_run :: "lc_state \<Rightarrow> lc_event list \<Rightarrow> lc_state \<Rightarrow> bool" where
  lc_run_nil: "lc_run st [] st"
| lc_run_cons: "lc_step st e st'' \<Longrightarrow> lc_run st'' es st' \<Longrightarrow> lc_run st (e # es) st'"

subsection \<open>A caller of the library\<close>

datatype phase = Idle | Pumping | Pumped | Crashed

record client =
  cw :: window
  cs :: os
  phase :: phase

text \<open>A call is made only by a thread that is not inside the pump and has not panicked.\<close>

definition at_rest :: "client \<Rightarrow> bool" where
  "at_rest c \<longleftrightarrow> phase c = Idle \<or> phase c = Pumped"

inductive client_step :: "client \<Rightarrow> lc_event \<Rightarrow> client \<Rightarrow> bool" where
  cs_init_ok:
    "at_rest c \<Longrightarrow> initialize (cw c) (cs c) = (Return (Inr ()), w', s') \<Longrightarrow>
     client_step c Init_ok (c\<lparr>cw := w', cs := s'\<rparr>)"
| cs_init_rejected:
    "at_rest c \<Longrightarrow> initialize (cw c) (cs c) = (Return (Inl e), w', s') \<Longrightarrow>
     client_step c Init_rejected (c\<lparr>cw := w', cs := s'\<rparr>)"
| cs_init_failed:
    "at_rest c \<Longrightarrow> initialize (cw c) (cs c) = (Panic e, w', s') \<Longrightarrow>
     client_step c Init_failed (c\<lparr>cw := w', cs := s', phase := Crashed\<rparr>)"
| cs_show:
    "phase c = Idle \<Longrightarrow> show' (cw c) (cs c) = (Return (), s') \<Longrightarrow>
     client_step c Show_ev (c\<lparr>cs := s'\<rparr>)"
| cs_pump_start:
    "phase c = Idle \<Longrightarrow> initialized (cw c) \<Longrightarrow> client_step c Pump_start (c\<lparr>phase := Pumping\<rparr>)"
| cs_pump_dispatch:
    "phase c = Pumping \<Longrightarrow> get_message (cs c) = Some (r, m, s1) \<Longrightarrow> r \<noteq> 0 \<Longrightarrow>
     client_step c Pump_dispatch (c\<lparr>cs := snd (dispatch_message m (translate_message m s1))\<rparr>)"
| cs_pump_quit:
    "phase c = Pumping \<Longrightarrow> get_message (cs c) = Some (0, m, s1) \<Longrightarrow>
     client_step c Pump_quit (c\<lparr>cs := println ''WM_QUIT'' s1, phase := Pumped\<rparr>)"
| cs_input:
    "phase c \<noteq> Crashed \<Longrightarrow>
     client_step c Input_ev (c\<lparr>cs := (cs c)\<lparr>input := input (cs c) @ [m]\<rparr>\<rparr>)"

definition client_init :: "os \<Rightarrow> client" where
  "client_init s = \<lparr>cw = new, cs = s, phase = Idle\<rparr>"

inductive client_run :: "client \<Rightarrow> lc_event list \<Rightarrow> client \<Rightarrow> bool" where
  client_run_nil: "client_run c [] c"
| client_run_cons: "client_step c e c'' \<Longrightarrow> client_run c'' es c' \<Longrightarrow> client_run c (e # es) c'"

text \<open>The rounds of the pump, without the input that arrives meanwhile.\<close>

definition pump_move :: "client \<Rightarrow> client \<Rightarrow> bool" where
  "pump_move c c' \<longleftrightarrow> client_step c Pump_dispatch c' \<or> client_step c Pump_quit c'"

subsection \<open>Abstraction and invariant\<close>

definition lc_abs :: "client \<Rightarrow> lc_state" where
  "lc_abs c =
     (case phase c of
        Crashed \<Rightarrow> Failed
      | Pumping \<Rightarrow> Running
      | Pumped \<Rightarrow> Terminated
      | Idle \<Rightarrow> if initialized (cw c) then Initialized else Uninitialized)"

definition client_inv :: "client \<Rightarrow> bool" where
  "client_inv c \<longleftrightarrow> window_inv (cw c) \<and> (phase c = Pumping \<or> phase c = Pumped \<longrightarrow> initialized (cw c))"

text \<open>\<open>RegisterClassA\<close> calls in the log.\<close>

fun is_registration :: "event \<Rightarrow> bool" where
  "is_registration (Ev_RegisterClassA _ _) = True"
| "is_registration _ = False"

definition registrations :: "os \<Rightarrow> nat" where
  "registrations s = length (filter is_registration (events s))"

code_pred lc_step .

inductive_cases client_stepE: "client_step c e c'"
inductive_cases client_step_dispatchE: "client_step c Pump_dispatch c'"
inductive_cases client_step_quitE: "client_step c Pump_quit c'"
inductive_simps lc_step_simps: "lc_step st e st'"

subsection \<open>Lemmas\<close>

lemma client_inv_init: "client_inv (client_init s)"
  by (simp add: client_inv_def client_init_def window_inv_new)

lemma client_step_inv: "client_step c e c' \<Longrightarrow> client_inv c \<Longrightarrow> client_inv c'"
proof (induction rule: client_step.induct)
  case (cs_init_ok c w' s')
  then show ?case
    using initialize_window_inv [of "cw c" "cs c"] initialize_ok_initialized [of "cw c" "cs c"]
    by (simp add: client_inv_def at_rest_def)
next
  case (cs_init_rejected c e w' s')
  then show ?case by (auto simp: client_inv_def dest: initialize_rejected)
next
  case (cs_init_failed c e w' s')
  then show ?case using initialize_window_inv [of "cw c" "cs c"] by (simp add: client_inv_def)
qed (auto simp: client_inv_def)

lemma client_run_inv: "client_run c es c' \<Longrightarrow> client_inv c \<Longrightarrow> client_inv c'"
  by (induction rule: client_run.induct) (auto dest: client_step_inv)

lemma lc_abs_simulates: "client_step c e c' \<Longrightarrow> client_inv c \<Longrightarrow> lc_step (lc_abs c) e (lc_abs c')"
proof (induction rule: client_step.induct)
  case (cs_init_ok c w' s')
  have "\<not> initialized (cw c)"
    using cs_init_ok.hyps(2) initialize_initialized by force
  moreover have "phase c = Idle"
    using cs_init_ok calculation by (auto simp: at_rest_def client_inv_def)
  moreover have "initialized w'"
    using initialize_ok_initialized [of "cw c" "cs c"] cs_init_ok.hyps(2) by simp
  ultimately show ?case by (simp add: lc_abs_def lc_step.intros)
next
  case (cs_init_rejected c e w' s')
  then show ?case
    by (auto simp: lc_abs_def at_rest_def intro!: lc_step.intros dest!: initialize_rejected)
next
  case (cs_init_failed c e w' s')
  have "\<not> initialized (cw c)"
    using cs_init_failed.hyps(2) initialize_initialized by force
  with cs_init_failed show ?case
    by (auto simp: lc_abs_def at_rest_def client_inv_def intro: lc_step.intros)
next
  case (cs_show c s')
  then have "initialized (cw c)"
    using show'_handle by (auto simp: client_inv_def window_inv_def)
  with cs_show show ?case by (simp add: lc_abs_def lc_step.intros)
qed (auto simp: lc_abs_def client_inv_def intro: lc_step.intros split: phase.split)


lemma client_run_refines:
  "client_run c es c' \<Longrightarrow> client_inv c \<Longrightarrow> lc_run (lc_abs c) es (lc_abs c')"
  by (induction rule: client_run.induct)
     (auto intro: lc_run.intros lc_abs_simulates client_step_inv)

lemma registrations_log [simp]:
  "registrations (log e s) = registrations s + (if is_registration e then 1 else 0)"
  by (simp add: registrations_def os_simps)

lemma registrations_close_effect [simp]: "registrations (close_effect h s) = registrations s"
  by (simp add: registrations_def events_close_effect)

lemma registrations_post_quit [simp]: "registrations (post_quit_message c s) = registrations s"
  by (simp add: registrations_def post_quit_message_def os_simps)

lemma registrations_wndproc [simp]: "registrations (snd (wndproc h m wp lp s)) = registrations s"
  by (cases "m = WM_CLOSE"; cases "m = WM_DESTROY")
     (simp_all add: wndproc_close_msg wndproc_destroy_msg wndproc_default def_window_proc_eq)

lemma registrations_dispatch [simp]: "registrations (snd (dispatch_message m s)) = registrations s"
  by (simp add: dispatch_message_def)

lemma registrations_windows_upd [simp]: "registrations (s\<lparr>windows := ws\<rparr>) = registrations s"
  by (simp add: registrations_def)

lemma registrations_next_hwnd_upd [simp]: "registrations (s\<lparr>next_hwnd := n\<rparr>) = registrations s"
  by (simp add: registrations_def)

lemma registrations_read_cstr: "read_cstr cls s = (name, s1) \<Longrightarrow> registrations s1 = registrations s"
  by (auto simp: read_cstr_def registrations_def split: list.splits)

lemma registrations_create_window [simp]:
  "registrations (snd (create_window cls t st inst s)) = registrations s"
proof -
  obtain name s1 where rd: "read_cstr cls s = (name, s1)" by (cases "read_cstr cls s")
  then show ?thesis
    by (simp add: create_window_def wndproc_default def_window_proc_eq destroy_window_eq
        make_visible_def registrations_read_cstr Let_def win32_consts split: option.split)
qed

lemma registrations_register_class [simp]:
  "registrations (snd (register_class wc s)) = Suc (registrations s)"
proof -
  obtain name s1 where rd: "read_cstr (lpszClassName wc) s = (name, s1)"
    by (cases "read_cstr (lpszClassName wc) s")
  then show ?thesis
    using registrations_read_cstr [OF rd] by (simp add: register_class_def Let_def registrations_def os_simps)
qed

lemma registrations_set_window_long_ptr [simp]:
  "registrations (snd (set_window_long_ptr h i v s)) = registrations s"
  by (simp add: set_window_long_ptr_def split: option.split)

lemma registrations_println [simp]: "registrations (println str s) = registrations s"
  by (simp add: registrations_def os_simps)

lemma registrations_entropy_upd [simp]: "registrations (s\<lparr>entropy := rs\<rparr>) = registrations s"
  by (simp add: registrations_def)

lemma registrations_initialize:
  "registrations (snd (snd (initialize w s))) =
     registrations s + (if fst (initialize w s) = Return (Inr ()) then 1 else 0)"
  by (simp add: initialize_def Let_def split_def split: outcome.split sum.split option.split)

lemma registrations_show' [simp]: "registrations (snd (show' w s)) = registrations s"
  by (simp add: show'_def show_window_def split: option.split)

lemma registrations_get_message:
  "get_message s = Some (r, m, s1) \<Longrightarrow> registrations s1 = registrations s"
  by (simp add: registrations_def get_message_events)

lemma client_step_registrations:
  "client_step c e c' \<Longrightarrow>
     registrations (cs c') + (if initialized (cw c) then 1 else 0) =
     registrations (cs c) + (if initialized (cw c') then 1 else 0)"
proof (induction rule: client_step.induct)
  case (cs_init_ok c w' s')
  then show ?case
    using registrations_initialize [of "cw c" "cs c"] initialize_ok_initialized [of "cw c" "cs c"]
      initialize_initialized [of "cw c" "cs c"] by auto
next
  case (cs_init_rejected c e w' s')
  then show ?case by (auto dest: initialize_rejected)
next
  case (cs_init_failed c e w' s')
  then show ?case
    using registrations_initialize [of "cw c" "cs c"] initialize_panic_initialized by auto
next
  case (cs_show c s')
  then show ?case using registrations_show' [of "cw c" "cs c"] by simp
next
  case (cs_pump_dispatch c r m s1)
  then show ?case by (simp add: translate_message_def registrations_get_message)
next
  case (cs_pump_quit c m s1)
  then show ?case by (simp add: registrations_get_message)
next
  case (cs_input c m)
  then show ?case by (simp add: registrations_def)
qed simp

lemma client_run_registrations:
  "client_run c es c' \<Longrightarrow>
     registrations (cs c') + (if initialized (cw c) then 1 else 0) =
     registrations (cs c) + (if initialized (cw c') then 1 else 0)"
  by (induction rule: client_run.induct) (auto dest: client_step_registrations)

lemma pump_move_phase: "pump_move c c' \<Longrightarrow> phase c = Pumping"
  by (auto simp: pump_move_def elim: client_stepE)

lemma pump_moves_from_pumped: "pump_move\<^sup>*\<^sup>* c c' \<Longrightarrow> phase c = Pumped \<Longrightarrow> c' = c"
  by (induction rule: converse_rtranclp_induct) (auto dest: pump_move_phase)

lemma returned_pump_moves:
  "process_messages s = Returned s' \<Longrightarrow> phase c = Pumping \<Longrightarrow> cs c = s \<Longrightarrow>
     \<exists>c'. pump_move\<^sup>*\<^sup>* c c' \<and> phase c' = Pumped \<and> cs c' = s'"
proof (induction s arbitrary: c rule: process_messages.induct)
  case (1 s)
  show ?case
  proof (cases "get_message s")
    case None
    with "1.prems" show ?thesis by (simp add: process_messages.simps)
  next
    case (Some x)
    then obtain r m s1 where gm: "get_message s = Some (r, m, s1)" by (cases x) auto
    show ?thesis
    proof (cases "r = 0")
      case True
      let ?c' = "c\<lparr>cs := println ''WM_QUIT'' s1, phase := Pumped\<rparr>"
      have "pump_move c ?c'"
        using "1.prems" gm True by (auto simp: pump_move_def intro: cs_pump_quit)
      moreover have "s' = println ''WM_QUIT'' s1"
        using "1.prems" gm True by (simp add: process_messages_quit_msg)
      ultimately show ?thesis by auto
    next
      case False
      let ?c'' = "c\<lparr>cs := snd (dispatch_message m (translate_message m s1))\<rparr>"
      have mv: "pump_move c ?c''"
        using "1.prems" gm False by (auto simp: pump_move_def intro: cs_pump_dispatch)
      have "process_messages (cs ?c'') = Returned s'"
        using "1.prems" process_messages_step [OF gm False] by simp
      then obtain c' where "pump_move\<^sup>*\<^sup>* ?c'' c'" "phase c' = Pumped" "cs c' = s'"
        using "1.IH" [OF gm refl refl False, of ?c''] "1.prems" by auto
      with mv show ?thesis by (blast intro: converse_rtranclp_into_rtranclp)
    qed
  qed
qed

lemma pump_move_cw: "pump_move c c' \<Longrightarrow> cw c' = cw c"
  by (auto simp: pump_move_def elim: client_step_dispatchE client_step_quitE)

lemma pump_moves_run: "pump_move\<^sup>*\<^sup>* c c' \<Longrightarrow> \<exists>es. client_run c es c' \<and> cw c' = cw c"
proof (induction rule: converse_rtranclp_induct)
  case base
  then show ?case by (blast intro: client_run_nil)
next
  case (step c c'')
  then obtain es where "client_run c'' es c'" "cw c' = cw c''" by blast
  moreover from step.hyps(1) obtain e where "client_step c e c''"
    by (auto simp: pump_move_def)
  ultimately show ?case using pump_move_cw [OF step.hyps(1)] by (auto intro: client_run_cons)
qed

text \<open>Rounds of a pump that ends: some number of dispatches, then the quit.\<close>

lemma pump_moves_rounds:
  "pump_move\<^sup>*\<^sup>* c c' \<Longrightarrow> phase c = Pumping \<Longrightarrow> phase c' = Pumped \<Longrightarrow>
     \<exists>n. client_run c (replicate n Pump_dispatch @ [Pump_quit]) c' \<and> cw c' = cw c"
proof (induction rule: converse_rtranclp_induct)
  case base
  then show ?case by simp
next
  case (step c c'')
  from step.hyps(1) consider (d) "client_step c Pump_dispatch c''" | (q) "client_step c Pump_quit c''"
    by (auto simp: pump_move_def)
  then show ?case
  proof cases
    case d
    then have "phase c'' = Pumping" by (auto elim: client_step_dispatchE)
    then obtain n where "client_run c'' (replicate n Pump_dispatch @ [Pump_quit]) c'" "cw c' = cw c''"
      using step.IH step.prems(2) by blast
    then show ?thesis
      using d pump_move_cw [OF step.hyps(1)] by (auto intro!: exI [of _ "Suc n"] client_run_cons)
  next
    case q
    then have "phase c'' = Pumped" by (auto elim: client_step_quitE)
    then have "c' = c''" using pump_moves_from_pumped [OF step.hyps(2)] by simp
    then show ?thesis
      using q pump_move_cw [OF step.hyps(1)] by (auto intro!: exI [of _ 0] client_run_cons client_run_nil)
  qed
qed

subsection \<open>Properties\<close>

text \<open>C13. Refinement of the specified lifecycle for a caller that keeps the
  specification's preconditions (the pump is started only on an initialized window, and
  no call is made from inside the pump or after a panic; \<open>main\<close> keeps them, while the
  code itself does not check them): every sequence of such calls, starting from
  \<open>Window::new()\<close> in any environment, is a run of the specification's state machine,
  with the state that \<open>lc_abs\<close> reads off the window and the caller's phase. So
  \<open>initialize\<close> succeeds only from \<open>Uninitialized\<close>, is rejected without effect
  afterwards, and a panic in it is terminal.\<close>

theorem client_run_refines_spec:
  "client_run (client_init s0) es c \<Longrightarrow> lc_run Uninitialized es (lc_abs c)"
proof -
  assume run: "client_run (client_init s0) es c"
  have "lc_abs (client_init s0) = Uninitialized"
    by (simp add: lc_abs_def client_init_def new_def)
  with client_run_refines [OF run client_inv_init] show ?thesis by simp
qed

text \<open>C14. Initialization happens once, over any sequence of calls: the log holds exactly
  one \<open>RegisterClassA\<close> call more than at the start once the window is initialized, and
  none more before.\<close>

theorem client_run_registers_once:
  "client_run (client_init s0) es c \<Longrightarrow>
     registrations (cs c) = registrations s0 + (if initialized (cw c) then 1 else 0)"
  using client_run_registrations [of "client_init s0" es c]
  by (simp add: client_init_def new_def)

text \<open>C15. The destructor is safe on every exit path: whatever calls were made and
  however they ended (including a panic inside \<open>initialize\<close>, which unwinds through
  \<open>drop\<close>), the \<open>unwrap\<close> of the module handle in \<open>Drop::drop\<close> succeeds.\<close>

theorem client_run_drop_safe:
  "client_run (client_init s0) es c \<Longrightarrow> fst (drop_window (cw c) s) = Return ()"
proof -
  assume "client_run (client_init s0) es c"
  then have "window_inv (cw c)"
    using client_run_inv client_inv_init by (auto simp: client_inv_def)
  then show ?thesis
    by (auto simp: window_inv_def drop_window_def Let_def split: option.splits)
qed

text \<open>C16. Progress: in every reachable \<open>Initialized\<close> state, \<open>show\<close> does not panic,
  so the call the entry point makes next can be made and leaves the state
  \<open>Initialized\<close>.\<close>

theorem client_run_show_enabled:
  "client_run (client_init s0) es c \<Longrightarrow> lc_abs c = Initialized \<Longrightarrow>
     \<exists>c'. client_step c Show_ev c' \<and> lc_abs c' = Initialized"
proof -
  assume run: "client_run (client_init s0) es c" and st: "lc_abs c = Initialized"
  then have inv: "client_inv c" and idle: "phase c = Idle" and ini: "initialized (cw c)"
    using client_run_inv [OF run client_inv_init]
    by (auto simp: lc_abs_def split: phase.splits if_splits)
  obtain s' where "show' (cw c) (cs c) = (Return (), s')"
    using show'_initialized inv ini by (auto simp: client_inv_def)
  then have "client_step c Show_ev (c\<lparr>cs := s'\<rparr>)" by (rule cs_show [OF idle])
  moreover have "lc_abs (c\<lparr>cs := s'\<rparr>) = Initialized"
    using idle ini by (simp add: lc_abs_def)
  ultimately show ?thesis by blast
qed

end
