(* ===== verification/Resources.thy ===== *)
theory Resources
  imports Lifecycle App
begin

text \<open>
  The resources the program acquires from the OS, window classes and windows, and their
  release (spec section 3: acquired in the order module, class, window and released in the
  reverse order on every exit path). \<open>resources_owned w s\<close> says that every class and
  every live window of the environment \<open>s\<close> is the window's own: the class under its
  stored name and module, the window under its stored handle, and that strings are read up
  to their NUL. Every call of the caller of \<open>Lifecycle\<close> keeps it, and from it
  \<open>Drop::drop\<close> releases everything; with \<open>main\<close> written as such a run, the program
  releases everything on each of its exits.
\<close>

subsection \<open>Ownership\<close>

definition resources_owned :: "window \<Rightarrow> os \<Rightarrow> bool" where
  "resources_owned w s \<longleftrightarrow>
     cstr_tails s = [] \<and>
     (atom w \<noteq> None \<longrightarrow> CHR 0x00 \<notin> set (class_str w)) \<and>
     dom (classes s) \<subseteq> {(class_str w, i) | i. atom w \<noteq> None \<and> instance' w = Some i} \<and>
     dom (windows s) \<subseteq> set_option (handle w)"

subsection \<open>Frames of the calls\<close>

lemma dom_windows_close_effect [simp]: "dom (windows (close_effect h s)) = dom (windows s) - {h}"
  by (auto simp: close_effect_def post_quit_message_def os_simps Let_def)

lemma dom_windows_wndproc: "dom (windows (snd (wndproc h m wp lp s))) \<subseteq> dom (windows s)"
  by (cases "m = WM_CLOSE"; cases "m = WM_DESTROY")
     (auto simp: wndproc_close_msg wndproc_destroy_msg wndproc_default def_window_proc_eq
        post_quit_message_def os_simps)

lemma dom_windows_dispatch: "dom (windows (snd (dispatch_message m s))) \<subseteq> dom (windows s)"
  using dom_windows_wndproc [of "msg_hwnd m" "msg_message m" "msg_wParam m" "msg_lParam m"
      "log (Ev_Send (msg_hwnd m) (msg_message m)) s"]
  by (simp add: dispatch_message_def os_simps)

lemma register_class_resources:
  assumes "register_class wc s = (a, s')" and "cstr_tails s = []" and "CHR 0x00 \<notin> set (lpszClassName wc)"
  shows "cstr_tails s' = [] \<and> dom (classes s') \<subseteq> dom (classes s) \<union> {(lpszClassName wc, hInstance wc)} \<and>
         windows s' = windows s"
  using assms by (auto simp: register_class_def read_cstr_exact os_simps Let_def split: if_splits)

lemma create_window_resources:
  assumes "create_window cls t st inst s = (h, s')"
  shows "cstr_tails s' = drop 1 (cstr_tails s) \<and> classes s' = classes s \<and>
         dom (windows s') \<subseteq> dom (windows s) \<union> {h}"
proof -
  obtain name s1 where rd: "read_cstr cls s = (name, s1)" by (cases "read_cstr cls s")
  then have s1: "s1 = s\<lparr>cstr_tails := drop 1 (cstr_tails s)\<rparr>" by (rule read_cstr_frame)
  show ?thesis
    using assms rd s1
    by (auto simp: create_window_def wndproc_default def_window_proc_eq make_visible_def
        win32_consts os_simps Let_def split: if_splits option.splits)
qed

lemma set_window_long_ptr_resources:
  "set_window_long_ptr h i v s = (r, s') \<Longrightarrow>
     cstr_tails s' = cstr_tails s \<and> classes s' = classes s \<and> dom (windows s') = dom (windows s)"
  by (auto simp: set_window_long_ptr_def os_simps split: option.splits if_splits)

lemma show'_resources:
  "show' w s = (r, s') \<Longrightarrow>
     cstr_tails s' = cstr_tails s \<and> classes s' = classes s \<and> dom (windows s') = dom (windows s)"
  by (auto simp: show'_def show_window_def os_simps split: option.splits if_splits)

lemma initialize_ok_parts:
  assumes "initialize w s = (Return (Inr ()), w', s')" and "\<not> initialized w"
  shows "\<exists>inst cur r rs a s2 h s3.
           entropy s = r # rs \<and> module_handle s = Some inst \<and> arrow_cursor s = Some cur \<and>
           register_class (window_class cur inst (hyphenated (uuid_from_random r))) (s\<lparr>entropy := rs\<rparr>) = (a, s2) \<and>
           create_window (hyphenated (uuid_from_random r)) ''Sample Window'' (WS_OVERLAPPEDWINDOW OR WS_VISIBLE)
             inst s2 = (h, s3) \<and>
           w' = w\<lparr>instance' := Some inst, class_str := hyphenated (uuid_from_random r), atom := Some a,
                  handle := Some h, initialized := True\<rparr> \<and>
           s' = snd (set_window_long_ptr h GWLP_USERDATA (self_slot s3) (println (show_int (self_slot s3)) s3))"
  using assms unfolding initialize_def Let_def
  by (auto simp: get_module_handle_def load_cursor_def new_v4_def
      split: prod.splits outcome.splits sum.splits option.splits list.splits)

lemma initialize_panic_tails:
  "initialize w s = (Panic e, w', s') \<Longrightarrow> \<not> initialized w \<Longrightarrow> cstr_tails s' = cstr_tails s"
  unfolding initialize_def Let_def
  by (auto split: prod.splits outcome.splits sum.splits option.splits)

lemma initialize_fresh_resources:
  assumes "initialize w s = (r, w', s')" and "\<not> initialized w" and "window_inv w"
    and "cstr_tails s = []" and "classes s = Map.empty" and "windows s = Map.empty"
  shows "resources_owned w' s'"
proof -
  have w: "handle w = None" "atom w = None" using assms(2,3) by (auto simp: window_inv_def)
  consider (ok) "r = Return (Inr ())" | (err) e where "r = Return (Inl e)" | (panic) e where "r = Panic e"
  proof (cases r)
    case (Return x)
    then show ?thesis using that by (cases x) auto
  qed (use that in auto)
  then show ?thesis
  proof cases
    case ok
    then obtain inst cur u rs a s2 h s3 where
        reg: "register_class (window_class cur inst (hyphenated (uuid_from_random u))) (s\<lparr>entropy := rs\<rparr>) = (a, s2)"
      and cw: "create_window (hyphenated (uuid_from_random u)) ''Sample Window'' (WS_OVERLAPPEDWINDOW OR WS_VISIBLE)
                 inst s2 = (h, s3)"
      and w': "w' = w\<lparr>instance' := Some inst, class_str := hyphenated (uuid_from_random u), atom := Some a,
                  handle := Some h, initialized := True\<rparr>"
      and s': "s' = snd (set_window_long_ptr h GWLP_USERDATA (self_slot s3) (println (show_int (self_slot s3)) s3))"
      using initialize_ok_parts [of w s w' s'] assms(1,2) by blast
    have nul: "CHR 0x00 \<notin> set (hyphenated (uuid_from_random u))" by (rule nul_not_in_hyphenated)
    have r2: "cstr_tails s2 = [] \<and> dom (classes s2) \<subseteq> {(hyphenated (uuid_from_random u), inst)} \<and> windows s2 = Map.empty"
      using register_class_resources [OF reg] assms(4,5,6) nul by (simp add: window_class_def)
    have r3: "cstr_tails s3 = [] \<and> classes s3 = classes s2 \<and> dom (windows s3) \<subseteq> {h}"
      using create_window_resources [OF cw] r2 by simp
    obtain x s4 where sw: "set_window_long_ptr h GWLP_USERDATA (self_slot s3) (println (show_int (self_slot s3)) s3) = (x, s4)"
      by (cases "set_window_long_ptr h GWLP_USERDATA (self_slot s3) (println (show_int (self_slot s3)) s3)")
    have "cstr_tails s4 = [] \<and> classes s4 = classes s2 \<and> dom (windows s4) \<subseteq> {h}"
      using set_window_long_ptr_resources [OF sw] r3 by (simp add: os_simps)
    then show ?thesis
      using r2 w' s' sw nul by (auto simp: resources_owned_def)
  next
    case (err e)
    then show ?thesis using assms(1,2) initialize_rejected by blast
  next
    case (panic e)
    then show ?thesis
      using assms w initialize_panic [of w s e w' s'] initialize_panic_tails [of w s e w' s']
      by (simp add: resources_owned_def)
  qed
qed

subsection \<open>Every call keeps ownership\<close>

lemma initialize_resources:
  assumes "initialize w s = (r, w', s')" and "window_inv w" and "resources_owned w s"
  shows "resources_owned w' s'"
proof (cases "initialized w")
  case True
  then show ?thesis using assms initialize_initialized by simp
next
  case False
  then have "handle w = None" "atom w = None" using assms(2) by (auto simp: window_inv_def)
  then have "classes s = Map.empty" "windows s = Map.empty" "cstr_tails s = []"
    using assms(3) by (auto simp: resources_owned_def)
  then show ?thesis using initialize_fresh_resources [OF assms(1) False assms(2)] by simp
qed

lemma client_step_resources:
  "client_step c e c' \<Longrightarrow> client_inv c \<Longrightarrow> resources_owned (cw c) (cs c) \<Longrightarrow>
     resources_owned (cw c') (cs c')"
proof (induction rule: client_step.induct)
  case (cs_init_ok c w' s')
  then show ?case using initialize_resources by (simp add: client_inv_def)
next
  case (cs_init_rejected c e w' s')
  then show ?case using initialize_resources by (simp add: client_inv_def)
next
  case (cs_init_failed c e w' s')
  then show ?case using initialize_resources by (simp add: client_inv_def)
next
  case (cs_show c s')
  then show ?case using show'_resources [OF cs_show.hyps(2)] by (simp add: resources_owned_def)
next
  case (cs_pump_dispatch c r m s1)
  let ?s2 = "snd (dispatch_message m s1)"
  have f: "env_frame s1 ?s2" by (rule env_frame_dispatch)
  have g: "cstr_tails s1 = cstr_tails (cs c) \<and> classes s1 = classes (cs c) \<and> windows s1 = windows (cs c)"
    using get_message_frame [OF cs_pump_dispatch.hyps(2)] by simp
  have "dom (windows ?s2) \<subseteq> dom (windows (cs c))"
    using dom_windows_dispatch [of m s1] g by simp
  moreover have "dom (windows (cs c)) \<subseteq> set_option (handle (cw c))"
    using cs_pump_dispatch.prems(2) by (simp add: resources_owned_def)
  ultimately have "dom (windows ?s2) \<subseteq> set_option (handle (cw c))" by (rule subset_trans)
  with f g cs_pump_dispatch.prems(2) show ?case
    by (simp add: resources_owned_def env_frame_def translate_message_def)
next
  case (cs_pump_quit c m s1)
  have "cstr_tails s1 = cstr_tails (cs c) \<and> classes s1 = classes (cs c) \<and> windows s1 = windows (cs c)"
    using get_message_frame [OF cs_pump_quit.hyps(2)] by simp
  with cs_pump_quit.prems(2) show ?case by (simp add: resources_owned_def os_simps)
qed (simp_all add: resources_owned_def)

lemma client_run_resources:
  "client_run c es c' \<Longrightarrow> client_inv c \<Longrightarrow> resources_owned (cw c) (cs c) \<Longrightarrow>
     resources_owned (cw c') (cs c')"
  by (induction rule: client_run.induct) (auto dest: client_step_resources client_step_inv)

lemma drop_window_releases:
  assumes "window_inv w" and "resources_owned w s"
  shows "classes (snd (drop_window w s)) = Map.empty \<and> windows (snd (drop_window w s)) = Map.empty"
proof (cases "handle w")
  case None
  with assms have "atom w = None" by (auto simp: window_inv_def)
  with None assms(2) show ?thesis by (auto simp: drop_window_def resources_owned_def)
next
  case (Some h)
  with assms(1) obtain a i where a: "atom w = Some a" and i: "instance' w = Some i"
    by (auto simp: window_inv_def)
  let ?s1 = "close_effect h s"
  have "dom (windows ?s1) = {}"
    using Some assms(2) by (auto simp: resources_owned_def)
  then have "windows ?s1 = Map.empty" by (simp only: dom_eq_empty_conv)
  then have s1: "cstr_tails ?s1 = [] \<and> classes ?s1 = classes s \<and> windows ?s1 = Map.empty"
    using assms(2) env_frame_close_effect [of s h] by (simp add: resources_owned_def env_frame_def)
  have nul: "CHR 0x00 \<notin> set (class_str w)" using a assms(2) by (simp add: resources_owned_def)
  have dom: "dom (classes s) \<subseteq> {(class_str w, i)}" using a i assms(2) by (auto simp: resources_owned_def)
  show ?thesis
    using Some a i s1 nul dom
    by (auto simp: drop_window_def destroy_window_eq unregister_class_def read_cstr_exact
        class_has_windows_def os_simps Let_def map_dom_singleton_clear map_dom_singleton_none)
qed

subsection \<open>Release\<close>

lemma resources_owned_fresh:
  "classes s = Map.empty \<Longrightarrow> windows s = Map.empty \<Longrightarrow> cstr_tails s = [] \<Longrightarrow> resources_owned new s"
  by (simp add: resources_owned_def new_def)

lemma show'_panic_state: "show' w s = (Panic e, s') \<Longrightarrow> s' = s"
  by (simp add: show'_def split: option.splits)

lemma pump_returned_run:
  assumes "phase c = Pumping" and "process_messages (cs c) = Returned s'"
  shows "\<exists>es c'. client_run c es c' \<and> cw c' = cw c \<and> cs c' = s' \<and> phase c' = Pumped"
proof -
  obtain c' where "pump_move\<^sup>*\<^sup>* c c'" "phase c' = Pumped" "cs c' = s'"
    using returned_pump_moves [OF assms(2) assms(1)] by auto
  with pump_moves_run show ?thesis by blast
qed

lemma main_run_or_hung:
  "(\<exists>s'. main s = Hung s') \<or>
   (\<exists>es c. client_run (client_init s) es c \<and>
      (main s = finish (cw c) (cs c) \<or> (\<exists>e. main s = unwind e (cw c) (cs c))))"
proof -
  obtain r w1 s1 where i: "initialize new s = (r, w1, s1)" by (cases "initialize new s")
  let ?c1 = "(client_init s)\<lparr>cw := w1, cs := s1\<rparr>"
  have rest: "at_rest (client_init s)" by (simp add: at_rest_def client_init_def)
  show ?thesis
  proof (cases r)
    case (Panic e)
    have "client_step (client_init s) Init_failed (?c1\<lparr>phase := Crashed\<rparr>)"
      using cs_init_failed [OF rest, of e w1 s1] i Panic by (simp add: client_init_def)
    then have "client_run (client_init s) [Init_failed] (?c1\<lparr>phase := Crashed\<rparr>)"
      by (rule client_run_cons [OF _ client_run_nil])
    moreover have "main s = unwind e w1 s1" using i Panic by (simp add: main_def)
    ultimately show ?thesis by fastforce
  next
    case (Return x)
    show ?thesis
    proof (cases x)
      case (Inl e)
      have "client_step (client_init s) Init_rejected ?c1"
        using cs_init_rejected [OF rest, of e w1 s1] i Return Inl by (simp add: client_init_def)
      then have "client_run (client_init s) [Init_rejected] ?c1"
        by (rule client_run_cons [OF _ client_run_nil])
      moreover have "main s = finish w1 s1" using i Return Inl by (simp add: main_def)
      ultimately show ?thesis by fastforce
    next
      case (Inr u)
      note ok = Return Inr
      have st1: "client_step (client_init s) Init_ok ?c1"
        using cs_init_ok [OF rest, of w1 s1] i ok by (simp add: client_init_def)
      obtain sh s2 where sh: "show' w1 s1 = (sh, s2)" by (cases "show' w1 s1")
      show ?thesis
      proof (cases sh)
        case (Panic e)
        have "client_run (client_init s) [Init_ok] ?c1" by (rule client_run_cons [OF st1 client_run_nil])
        moreover have "main s = unwind e w1 s1"
          using i ok sh Panic show'_panic_state [of w1 s1 e s2] by (simp add: main_def)
        ultimately show ?thesis by fastforce
      next
        case (Return v)
        have st2: "client_step ?c1 Show_ev (?c1\<lparr>cs := s2\<rparr>)"
          by (rule cs_show) (simp_all add: client_init_def sh Return)
        have ini: "initialized w1" using initialize_ok_initialized [of new s] i ok by simp
        have st3: "client_step (?c1\<lparr>cs := s2\<rparr>) Pump_start (?c1\<lparr>cs := s2, phase := Pumping\<rparr>)"
          by (rule cs_pump_start) (simp_all add: client_init_def ini)
        show ?thesis
        proof (cases "process_messages s2")
          case (Blocked s3)
          then show ?thesis using i ok sh Return by (simp add: main_def)
        next
          case (Returned s3)
          then obtain es c' where run: "client_run (?c1\<lparr>cs := s2, phase := Pumping\<rparr>) es c'"
              and c': "cw c' = w1" "cs c' = s3"
            using pump_returned_run [of "?c1\<lparr>cs := s2, phase := Pumping\<rparr>" s3] by auto
          have "client_run (client_init s) ([Init_ok, Show_ev, Pump_start] @ es) c'"
            using st1 st2 st3 run by (auto intro!: client_run_cons)
          moreover have "main s = finish w1 s3"
            using i ok sh Return Returned by (simp add: main_def)
          ultimately show ?thesis using c' by fastforce
        qed
      qed
    qed
  qed
qed

lemma destroy_window_class_frame:
  "classes (snd (destroy_window h s)) = classes s \<and> cstr_tails (snd (destroy_window h s)) = cstr_tails s"
  using env_frame_close_effect [of s h] by (simp add: destroy_window_eq env_frame_def)

lemma unregister_class_other:
  assumes "read_cstr buf s = (name, s1)" and "k \<noteq> (name, inst)"
  shows "classes (snd (unregister_class buf inst s)) k = classes s k"
  using unregister_class_eq [OF assms(1), of inst] read_cstr_frame [OF assms(1)] assms(2)
  by (simp add: os_simps)

lemma takeWhile_nul_append:
  "CHR 0x00 \<notin> set n \<Longrightarrow> takeWhile (\<lambda>c. c \<noteq> CHR 0x00) (n @ t) = n @ takeWhile (\<lambda>c. c \<noteq> CHR 0x00) t"
  by (rule takeWhile_append2) auto

subsection \<open>Properties\<close>

text \<open>C19. No leak after any sequence of calls, in a process whose OS finds a NUL
  right after every string buffer it reads (hypothesis \<open>cstr_tails s0 = []\<close>) and that
  starts with no class and no window: whatever calls the caller made and however they
  ended, dropping the window leaves no registered class and no live window. The window is
  destroyed before \<open>UnregisterClassA\<close>, which succeeds because no window of the class is
  left. Without the NUL hypothesis the class can leak (C21).\<close>

theorem client_run_no_leak:
  assumes "client_run (client_init s0) es c"
    and "classes s0 = Map.empty" and "windows s0 = Map.empty" and "cstr_tails s0 = []"
  shows "classes (snd (drop_window (cw c) (cs c))) = Map.empty \<and>
         windows (snd (drop_window (cw c) (cs c))) = Map.empty"
proof -
  have inv: "window_inv (cw c)"
    using client_run_inv [OF assms(1) client_inv_init] by (simp add: client_inv_def)
  have own: "resources_owned (cw c) (cs c)"
    using client_run_resources [OF assms(1) client_inv_init] resources_owned_fresh [OF assms(2-4)]
    by (simp add: client_init_def)
  show ?thesis
  proof (cases "handle (cw c)")
    case None
    with inv have "atom (cw c) = None" by (auto simp: window_inv_def)
    with None own show ?thesis by (auto simp: drop_window_def resources_owned_def)
  next
    case (Some h)
    with inv obtain a i where a: "atom (cw c) = Some a" and i: "instance' (cw c) = Some i"
      by (auto simp: window_inv_def)
    let ?s1 = "close_effect h (cs c)"
    have "dom (windows ?s1) = {}" using Some own by (auto simp: resources_owned_def)
    then have "windows ?s1 = Map.empty" by (simp only: dom_eq_empty_conv)
    then have s1: "cstr_tails ?s1 = [] \<and> classes ?s1 = classes (cs c) \<and> windows ?s1 = Map.empty"
      using own env_frame_close_effect [of "cs c" h] by (simp add: resources_owned_def env_frame_def)
    have nul: "CHR 0x00 \<notin> set (class_str (cw c))" using a own by (simp add: resources_owned_def)
    have dom: "dom (classes (cs c)) \<subseteq> {(class_str (cw c), i)}"
      using a i own by (auto simp: resources_owned_def)
    show ?thesis
      using Some a i s1 nul dom
      by (auto simp: drop_window_def destroy_window_eq unregister_class_def read_cstr_exact
          class_has_windows_def os_simps Let_def map_dom_singleton_clear map_dom_singleton_none)
  qed
qed

text \<open>C20. Release on every exit of the program, under the same hypotheses (no class
  and no window at the start, a NUL after every string buffer the OS reads): \<open>main\<close>,
  whether it returns normally or a panic unwinds out of it, leaves no registered class and
  no live window.\<close>

theorem main_releases_resources:
  assumes "classes s = Map.empty" and "windows s = Map.empty" and "cstr_tails s = []"
    and "main s = Exited s' \<or> main s = Panicked e s'"
  shows "classes s' = Map.empty \<and> windows s' = Map.empty"
proof -
  obtain es c where run: "client_run (client_init s) es c"
      and m: "main s = finish (cw c) (cs c) \<or> (\<exists>e. main s = unwind e (cw c) (cs c))"
    using main_run_or_hung [of s] assms(4) by auto
  have inv: "window_inv (cw c)"
    using client_run_inv [OF run client_inv_init] by (simp add: client_inv_def)
  have own: "resources_owned (cw c) (cs c)"
    using client_run_resources [OF run client_inv_init] resources_owned_fresh [OF assms(1-3)]
    by (simp add: client_init_def)
  obtain x t where d: "drop_window (cw c) (cs c) = (x, t)" by (cases "drop_window (cw c) (cs c)")
  have "s' = t"
    using m assms(4) d by (auto simp: finish_def unwind_def split: outcome.splits)
  then show ?thesis using drop_window_releases [OF inv own] d by simp
qed

text \<open>C21. The leak that the NUL hypothesis of the two previous properties excludes: the
  class name is passed as \<open>PCSTR(String::as_ptr())\<close> without a terminating NUL, so
  \<open>RegisterClassA\<close> (in \<open>initialize\<close>) and \<open>UnregisterClassA\<close> (in \<open>drop\<close>) each read
  the name up to whatever NUL follows the buffer at the time. When the stray bytes differ
  between the two reads, \<open>drop\<close> unregisters a name that was never registered and the
  class that \<open>initialize\<close> registered stays registered after the window is dropped.\<close>

theorem drop_window_leaks_class:
  assumes init: "initialize w s = (Return (Inr ()), w', s')" and ni: "\<not> initialized w"
    and tails: "cstr_tails s = [t1, t2, t3]" and at: "atom w' = Some a" and nz: "a \<noteq> 0"
    and diff: "takeWhile (\<lambda>c. c \<noteq> CHR 0x00) t1 \<noteq> takeWhile (\<lambda>c. c \<noteq> CHR 0x00) t3"
  shows "classes (snd (drop_window w' s'))
           (class_str w' @ takeWhile (\<lambda>c. c \<noteq> CHR 0x00) t1, the (instance' w')) = Some a"
proof -
  obtain inst cur r rs a0 s2 h s3 where
    reg: "register_class (window_class cur inst (hyphenated (uuid_from_random r))) (s\<lparr>entropy := rs\<rparr>) = (a0, s2)"
    and cw: "create_window (hyphenated (uuid_from_random r)) ''Sample Window''
               (WS_OVERLAPPEDWINDOW OR WS_VISIBLE) inst s2 = (h, s3)"
    and w': "w' = w\<lparr>instance' := Some inst, class_str := hyphenated (uuid_from_random r), atom := Some a0,
                    handle := Some h, initialized := True\<rparr>"
    and s': "s' = snd (set_window_long_ptr h GWLP_USERDATA (self_slot s3) (println (show_int (self_slot s3)) s3))"
    using initialize_ok_parts [OF init ni] by blast
  let ?n = "hyphenated (uuid_from_random r)"
  let ?tw = "takeWhile (\<lambda>c. c \<noteq> CHR 0x00)"
  have nn: "CHR 0x00 \<notin> set ?n" by (rule nul_not_in_hyphenated)
  have a0: "a0 = a" using at w' by simp
  have rd1: "read_cstr ?n (s\<lparr>entropy := rs\<rparr>) = (?n @ ?tw t1, s\<lparr>entropy := rs, cstr_tails := [t2, t3]\<rparr>)"
    using tails nn by (simp add: read_cstr_def takeWhile_nul_append)
  have c2: "classes s2 (?n @ ?tw t1, inst) = Some a \<and> cstr_tails s2 = [t2, t3]"
    using reg rd1 nz a0
    by (auto simp: register_class_def window_class_def os_simps Let_def split: if_splits)
  have c3: "classes s3 = classes s2 \<and> cstr_tails s3 = [t3]"
    using create_window_resources [OF cw] c2 by simp
  have c4: "classes s' = classes s3 \<and> cstr_tails s' = [t3]"
    using set_window_long_ptr_resources [of h GWLP_USERDATA "self_slot s3" "println (show_int (self_slot s3)) s3"]
          c3 unfolding s' by (cases "set_window_long_ptr h GWLP_USERDATA (self_slot s3) (println (show_int (self_slot s3)) s3)")
                             (simp add: os_simps)
  let ?s4 = "snd (destroy_window h s')"
  have c5: "classes ?s4 = classes s' \<and> cstr_tails ?s4 = [t3]"
    using destroy_window_class_frame [of h s'] c4 by simp
  have rd3: "read_cstr ?n ?s4 = (?n @ ?tw t3, ?s4\<lparr>cstr_tails := []\<rparr>)"
    using c5 nn by (simp add: read_cstr_def takeWhile_nul_append)
  have key: "(?n @ ?tw t1, inst) \<noteq> (?n @ ?tw t3, inst)" using diff by simp
  have "drop_window w' s' = (Return (), snd (unregister_class ?n inst ?s4))"
    using w' by (simp add: drop_window_def)
  then show ?thesis
    using unregister_class_other [OF rd3 key] c2 c3 c4 c5 w' by simp
qed

end
