(* ===== verification/Exits.thy ===== *)
theory Exits
  imports Resources
begin

text \<open>
  How the program ends when a Win32 call of \<open>initialize\<close> fails. \<open>initialize\<close> does not
  check what \<open>RegisterClassA\<close> and \<open>CreateWindowExA\<close> return, so it returns \<open>Ok(())\<close>
  without a window; \<open>main\<close> then shows nothing and enters the pump. With no window the
  window procedure never runs, nothing posts the quit, and every input message is dropped by
  \<open>DispatchMessageA\<close>: the pump waits in \<open>GetMessageA\<close> for ever.
\<close>

subsection \<open>Lemmas\<close>

lemma initialize_ok_queues:
  assumes "initialize w s = (Return (Inr ()), w', s')" and "\<not> initialized w"
  shows "posted s' = posted s \<and> quit s' = quit s \<and> input s' = input s \<and> (\<exists>h. handle w' = Some h)"
proof -
  obtain inst cur r rs a s2 h s3 where
      reg: "register_class (window_class cur inst (hyphenated (uuid_from_random r))) (s\<lparr>entropy := rs\<rparr>) = (a, s2)"
    and cw: "create_window (hyphenated (uuid_from_random r)) ''Sample Window'' (WS_OVERLAPPEDWINDOW OR WS_VISIBLE)
               inst s2 = (h, s3)"
    and w': "handle w' = Some h"
    and s': "s' = snd (set_window_long_ptr h GWLP_USERDATA (self_slot s3) (println (show_int (self_slot s3)) s3))"
    using initialize_ok_parts [OF assms] by auto
  have "posted s2 = posted s \<and> quit s2 = quit s \<and> input s2 = input s"
    using reg by (auto simp: register_class_def read_cstr_def os_simps Let_def split: list.splits if_splits)
  moreover have "posted s3 = posted s2 \<and> quit s3 = quit s2 \<and> input s3 = input s2"
    using create_window_queues [of "hyphenated (uuid_from_random r)" "''Sample Window''"
        "WS_OVERLAPPEDWINDOW OR WS_VISIBLE" inst s2] cw by simp
  ultimately show ?thesis
    using s' w' by (auto simp: set_window_long_ptr_def os_simps split: option.split)
qed

subsection \<open>Properties\<close>

text \<open>C23. A process that cannot create its window never ends (a divergence from the
  spec, which has the process exit without showing a window when initialization fails): if
  \<open>initialize\<close> returns \<open>Ok(())\<close> but no window exists afterwards, and no quit is
  pending, \<open>main\<close> consumes all the user's input without effect and waits in
  \<open>GetMessageA\<close> for ever; the window is never dropped.\<close>

theorem main_hangs_without_window:
  assumes "fst (initialize new s) = Return (Inr ())"
    and "windows (snd (snd (initialize new s))) = Map.empty"
    and "posted s = []" and "quit s = None"
  shows "main s = Hung ((snd (snd (initialize new s)))\<lparr>input := []\<rparr>)"
proof -
  obtain w1 s1 where i: "initialize new s = (Return (Inr ()), w1, s1)"
    using assms(1) by (cases "initialize new s") auto
  have q: "posted s1 = [] \<and> quit s1 = None \<and> windows s1 = Map.empty" and "\<exists>h. handle w1 = Some h"
    using initialize_ok_queues [OF i] assms i by (simp_all add: new_def)
  then obtain h where h: "handle w1 = Some h" by blast
  have sh: "show' w1 s1 = (Return (), s1)"
    using h q by (simp add: show'_def show_window_def)
  have pump: "windows t = Map.empty \<Longrightarrow> posted t = [] \<Longrightarrow> quit t = None \<Longrightarrow>
                process_messages t = Blocked (t\<lparr>input := []\<rparr>)" for t
  proof (induction "input t" arbitrary: t)
    case Nil
    then have "get_message t = None" by (simp add: get_message_def)
    with Nil show ?case by (simp add: process_messages.simps)
  next
    case (Cons m rest)
    let ?t1 = "t\<lparr>input := rest\<rparr>"
    have gm: "get_message t = Some (1, m, ?t1)"
      using Cons.prems Cons.hyps(2) [symmetric] by (simp add: get_message_def)
    have "snd (dispatch_message m (translate_message m ?t1)) = ?t1"
      using Cons.prems by (simp add: dispatch_message_def translate_message_def)
    then have "process_messages t = process_messages ?t1"
      using process_messages_step [OF gm] by simp
    also have "\<dots> = Blocked (?t1\<lparr>input := []\<rparr>)"
      using Cons.hyps(1) [of ?t1] Cons.prems by simp
    finally show ?case by simp
  qed
  show ?thesis
    using i sh pump [of s1] q by (simp add: main_def)
qed

end
