(* ===== verification/Wellformed.thy ===== *)
theory Wellformed
  imports Resources
begin

text \<open>
  Well-formedness of the Win32 environment (\<open>os_wf\<close>): registered class atoms lie in the
  range the OS reserves for them, every live window has a positive handle no larger than
  the last one handed out, and the class it was created with is still registered. Every
  Win32 call of the model keeps it, and so does every method of \<open>Window\<close> in
  \<open>src/src/lib.rs\<close>: \<open>initialize\<close> (lines 49--95), \<open>show\<close>, \<open>process_messages\<close>
  and \<open>drop\<close>. \<open>UnregisterClassA\<close> keeps it because it refuses a class that a live window
  still uses. The property lifts this to the caller (\<open>client_run\<close>), together with the
  field invariant \<open>window_inv\<close> that the methods keep.
\<close>

definition os_wf :: "os \<Rightarrow> bool" where
  "os_wf s \<longleftrightarrow>
     atoms_ok s \<and>
     (\<forall>h w. windows s h = Some w \<longrightarrow>
        0 < h \<and> h \<le> next_hwnd s \<and> classes s (wnd_class w, wnd_instance w) \<noteq> None)"

subsection \<open>Preservation by the Win32 calls and the methods\<close>

lemma os_wf_cong:
  "classes s' = classes s \<Longrightarrow> next_atom s' = next_atom s \<Longrightarrow> next_hwnd s' = next_hwnd s \<Longrightarrow>
   windows s' = windows s \<Longrightarrow> os_wf s' = os_wf s"
  by (simp add: os_wf_def atoms_ok_def)

lemma os_wf_log [simp]: "os_wf (log e s) = os_wf s"
  by (rule os_wf_cong) (simp_all add: os_simps)

lemma os_wf_println [simp]: "os_wf (println str s) = os_wf s"
  by (rule os_wf_cong) (simp_all add: os_simps)

lemma os_wf_post_quit [simp]: "os_wf (post_quit_message c s) = os_wf s"
  by (rule os_wf_cong) (simp_all add: post_quit_message_def os_simps)

lemma os_wf_del_window: "os_wf s \<Longrightarrow> os_wf (s\<lparr>windows := (windows s)(h := None)\<rparr>)"
  by (simp add: os_wf_def atoms_ok_def)

lemma os_wf_upd_window:
  "os_wf s \<Longrightarrow> windows s h = Some w \<Longrightarrow> wnd_class w' = wnd_class w \<Longrightarrow> wnd_instance w' = wnd_instance w \<Longrightarrow>
   os_wf (s\<lparr>windows := (windows s)(h \<mapsto> w')\<rparr>)"
  by (auto simp: os_wf_def atoms_ok_def)

lemma os_wf_close_effect: "os_wf s \<Longrightarrow> os_wf (close_effect h s)"
  by (simp add: close_effect_def post_quit_message_def os_simps Let_def)
     (auto simp: os_wf_def atoms_ok_def)

lemma os_wf_wndproc: "os_wf s \<Longrightarrow> os_wf (snd (wndproc h m wp lp s))"
  by (cases "m = WM_CLOSE"; cases "m = WM_DESTROY")
     (simp_all add: wndproc_close_msg wndproc_destroy_msg wndproc_default def_window_proc_eq
        os_wf_close_effect)

lemma os_wf_dispatch: "os_wf s \<Longrightarrow> os_wf (snd (dispatch_message m s))"
  using os_wf_wndproc [of "log (Ev_Send (msg_hwnd m) (msg_message m)) s"]
  by (simp add: dispatch_message_def)

lemma os_wf_read_cstr: "read_cstr b s = (name, s1) \<Longrightarrow> os_wf s1 = os_wf s"
  by (drule read_cstr_frame) (simp add: os_wf_def atoms_ok_def)

lemma os_wf_register_class:
  assumes "os_wf s" and "register_class wc s = (a, s')"
  shows "os_wf s'"
proof -
  obtain name s1 where rd: "read_cstr (lpszClassName wc) s = (name, s1)"
    by (cases "read_cstr (lpszClassName wc) s")
  have wf1: "os_wf s1" using os_wf_read_cstr [OF rd] assms(1) by simp
  have at: "atoms_ok s'" using register_class_atom_range [of s wc] assms by (simp add: os_wf_def)
  show ?thesis
  proof (cases "name = [] \<or> 256 < length name \<or> classes s1 (name, hInstance wc) \<noteq> None \<or> next_atom s1 = 0")
    case True
    then show ?thesis using register_class_refused [OF rd True] assms(2) wf1 by simp
  next
    case False
    then have s': "s' = log (Ev_RegisterClassA name (next_atom s1))
                     (s1\<lparr>classes := (classes s1)((name, hInstance wc) \<mapsto> next_atom s1),
                         next_atom := next_atom s1 + 1\<rparr>)"
      using assms(2) rd by (auto simp: register_class_def)
    show ?thesis
      using wf1 at unfolding s' by (simp add: os_wf_def os_simps)
  qed
qed

lemma os_wf_make_visible [simp]: "os_wf s \<Longrightarrow> os_wf (make_visible h s)"
  by (auto simp: make_visible_def split: option.splits intro!: os_wf_upd_window)

lemma os_wf_destroy_window: "os_wf s \<Longrightarrow> os_wf (snd (destroy_window h s))"
  by (simp add: destroy_window_eq os_wf_close_effect)

lemma os_wf_create_window:
  assumes "os_wf s" and "create_window cls t st inst s = (h, s')"
  shows "os_wf s'"
proof -
  obtain name s1 where rd: "read_cstr cls s = (name, s1)" by (cases "read_cstr cls s")
  have wf1: "os_wf s1" using os_wf_read_cstr [OF rd] assms(1) by simp
  have send: "os_wf (snd (wndproc g m 0 0 (log e u)))" if "os_wf u" for g m e u
    using os_wf_wndproc [of "log e u"] that by simp
  show ?thesis
  proof (cases "classes s1 (name, inst) = None")
    case True
    then show ?thesis using assms(2) rd wf1 by (auto simp: create_window_def)
  next
    case cls: False
    define g where "g = Suc (next_hwnd s1)"
    define s2 where "s2 = s1\<lparr>windows := (windows s1)(g \<mapsto> new_wnd name inst t st), next_hwnd := g\<rparr>"
    have wf2: "os_wf s2"
      using cls wf1 unfolding s2_def g_def by (fastforce simp: os_wf_def atoms_ok_def new_wnd_def)
    obtain r1 s3 where w1: "wndproc g WM_NCCREATE 0 0 (log (Ev_Send g WM_NCCREATE) s2) = (r1, s3)"
      by (cases "wndproc g WM_NCCREATE 0 0 (log (Ev_Send g WM_NCCREATE) s2)")
    have wf3: "os_wf s3" using send [OF wf2, of g WM_NCCREATE "Ev_Send g WM_NCCREATE"] w1 by simp
    have cw: "create_window cls t st inst s =
               (if r1 = 0 then
                  (let (_, s4) = wndproc g WM_NCDESTROY 0 0 (log (Ev_Send g WM_NCDESTROY) s3)
                   in (0, log (Ev_CreateWindowExA name 0) (s4\<lparr>windows := (windows s4)(g := None)\<rparr>)))
                else
                  (let (r2, s4) = wndproc g WM_CREATE 0 0 (log (Ev_Send g WM_CREATE) s3)
                   in if r2 = -1 then
                        (let (_, s5) = destroy_window g s4 in (0, log (Ev_CreateWindowExA name 0) s5))
                      else if windows s4 g = None then (0, log (Ev_CreateWindowExA name 0) s4)
                      else
                        (let s5 = (if st AND WS_VISIBLE \<noteq> 0 then make_visible g s4 else s4)
                         in (g, log (Ev_CreateWindowExA name g) s5))))"
      using rd w1 unfolding create_window_def s2_def g_def by (simp add: Let_def cls)
    show ?thesis
    proof (cases "r1 = 0")
      case True
      obtain x s4 where w2: "wndproc g WM_NCDESTROY 0 0 (log (Ev_Send g WM_NCDESTROY) s3) = (x, s4)"
        by (cases "wndproc g WM_NCDESTROY 0 0 (log (Ev_Send g WM_NCDESTROY) s3)")
      have "os_wf s4" using send [OF wf3, of g WM_NCDESTROY "Ev_Send g WM_NCDESTROY"] w2 by simp
      then show ?thesis using assms(2) cw True w2 by (auto dest: os_wf_del_window)
    next
      case False
      obtain r2 s4 where w2: "wndproc g WM_CREATE 0 0 (log (Ev_Send g WM_CREATE) s3) = (r2, s4)"
        by (cases "wndproc g WM_CREATE 0 0 (log (Ev_Send g WM_CREATE) s3)")
      have wf4: "os_wf s4" using send [OF wf3, of g WM_CREATE "Ev_Send g WM_CREATE"] w2 by simp
      have "os_wf (snd (destroy_window g s4))" using os_wf_destroy_window [OF wf4] .
      then show ?thesis using assms(2) cw False w2 wf4
        by (auto simp: Let_def split: prod.splits if_splits)
    qed
  qed
qed

lemma os_wf_set_window_long_ptr:
  "os_wf s \<Longrightarrow> set_window_long_ptr h i v s = (r, s') \<Longrightarrow> os_wf s'"
  by (auto simp: set_window_long_ptr_def split: option.splits if_splits intro!: os_wf_upd_window)

lemma os_wf_show': "os_wf s \<Longrightarrow> show' w s = (r, s') \<Longrightarrow> os_wf s'"
  by (auto simp: show'_def show_window_def split: option.splits intro!: os_wf_upd_window)

lemma os_wf_get_message: "os_wf s \<Longrightarrow> get_message s = Some (r, m, s') \<Longrightarrow> os_wf s'"
  by (auto simp: get_message_def os_wf_def atoms_ok_def split: list.splits option.splits)

lemma os_wf_del_class:
  assumes "os_wf s" and "\<not> class_has_windows name inst s"
  shows "os_wf (s\<lparr>classes := (classes s)((name, inst) := None)\<rparr>)"
proof -
  have "ran ((classes s)((name, inst) := None)) \<subseteq> ran (classes s)"
    by (auto simp: ran_def)
  moreover have "(wnd_class w, wnd_instance w) \<noteq> (name, inst)" if "windows s h = Some w" for h w
    using assms(2) that by (force simp: class_has_windows_def)
  ultimately show ?thesis using assms(1) by (auto simp: os_wf_def atoms_ok_def)
qed

lemma os_wf_unregister_class: "os_wf s \<Longrightarrow> unregister_class b inst s = (r, s') \<Longrightarrow> os_wf s'"
proof -
  assume wf: "os_wf s" and u: "unregister_class b inst s = (r, s')"
  obtain name s1 where rd: "read_cstr b s = (name, s1)" by (cases "read_cstr b s")
  have wf1: "os_wf s1" using os_wf_read_cstr [OF rd] wf by simp
  show "os_wf s'"
    using u rd wf1 os_wf_del_class [OF wf1, of name inst]
    by (auto simp: unregister_class_def Let_def split: if_splits)
qed

lemma os_wf_entropy [simp]: "os_wf (s\<lparr>entropy := rs\<rparr>) = os_wf s"
  by (simp add: os_wf_def atoms_ok_def)

lemma os_wf_input [simp]: "os_wf (s\<lparr>input := ms\<rparr>) = os_wf s"
  by (simp add: os_wf_def atoms_ok_def)

lemma os_wf_initialize:
  assumes "os_wf s" and "initialize w s = (r, w', s')"
  shows "os_wf s'"
proof (cases "initialized w")
  case True
  then show ?thesis using assms by (simp add: initialize_def)
next
  case uninit: False
  show ?thesis
  proof (cases r)
    case (Return x)
    then obtain u where x: "x = Inr ()"
      using assms(2) uninit initialize_rejected [of w s _ w' s'] by (cases x) auto
    then obtain inst cur q rs a s2 h s3 where
      reg: "register_class (window_class cur inst (hyphenated (uuid_from_random q))) (s\<lparr>entropy := rs\<rparr>) = (a, s2)"
      and cw: "create_window (hyphenated (uuid_from_random q)) ''Sample Window''
                 (WS_OVERLAPPEDWINDOW OR WS_VISIBLE) inst s2 = (h, s3)"
      and s': "s' = snd (set_window_long_ptr h GWLP_USERDATA (self_slot s3) (println (show_int (self_slot s3)) s3))"
      using initialize_ok_parts [of w s w' s'] assms(2) uninit Return by blast
    have "os_wf s2" using os_wf_register_class [OF _ reg] assms(1) by simp
    then have "os_wf s3" using os_wf_create_window [OF _ cw] by simp
    then show ?thesis
      using os_wf_set_window_long_ptr [of "println (show_int (self_slot s3)) s3" h GWLP_USERDATA]
      unfolding s' by (metis os_wf_println prod.collapse)
  next
    case (Panic e)
    then show ?thesis using assms uninit unfolding initialize_def Let_def
      by (auto split: prod.splits outcome.splits sum.splits option.splits)
  qed
qed

lemma os_wf_drop_window: "os_wf s \<Longrightarrow> os_wf (snd (drop_window w s))"
  using os_wf_unregister_class [OF _ prod.collapse [symmetric]]
  by (auto simp: drop_window_def os_wf_destroy_window split: option.splits)

lemma client_step_wf: "client_step c e c' \<Longrightarrow> os_wf (cs c) \<Longrightarrow> os_wf (cs c')"
proof (induction rule: client_step.induct)
  case (cs_init_ok c w' s')
  then show ?case using os_wf_initialize by simp
next
  case (cs_init_rejected c e w' s')
  then show ?case using os_wf_initialize by simp
next
  case (cs_init_failed c e w' s')
  then show ?case using os_wf_initialize by simp
next
  case (cs_show c s')
  then show ?case using os_wf_show' by simp
next
  case (cs_pump_dispatch c r m s1)
  then show ?case using os_wf_get_message os_wf_dispatch by (simp add: translate_message_def)
next
  case (cs_pump_quit c m s1)
  then show ?case using os_wf_get_message by simp
qed simp_all

subsection \<open>Properties\<close>

text \<open>C24. Well-formedness of every state the caller reaches: starting from a well-formed
  environment and a fresh \<open>Window\<close>, any sequence of calls, pump rounds and user input
  leaves the window's fields consistent (\<open>window_inv\<close>), the environment well-formed, and
  dropping the window at that point keeps it well-formed.\<close>

theorem client_run_wf:
  assumes "client_run (client_init s0) es c" and "os_wf s0"
  shows "window_inv (cw c) \<and> os_wf (cs c) \<and> os_wf (snd (drop_window (cw c) (cs c)))"
proof -
  have "client_run c0 es c \<Longrightarrow> os_wf (cs c0) \<Longrightarrow> os_wf (cs c)" for c0
    by (induction rule: client_run.induct) (auto dest: client_step_wf)
  then have wf: "os_wf (cs c)" using assms by (simp add: client_init_def)
  have "client_inv c" using client_run_inv [OF assms(1) client_inv_init] .
  with wf show ?thesis by (simp add: client_inv_def os_wf_drop_window)
qed

end
