(* ===== verification/Diagnostics.thy ===== *)
theory Diagnostics
  imports Resources
begin

text \<open>
  The diagnostics channel: the two \<open>println!\<close> calls of \<open>src/src/lib.rs\<close>.
  \<open>initialize\<close> prints \<open>class_ptr\<close> with \<open>{:?}\<close> (line 88), which for an \<open>isize\<close> is
  its decimal rendering (\<open>show_int\<close> of \<open>Prelude\<close>); \<open>process_messages\<close> prints
  \<open>WM_QUIT\<close> when the loop ends (line 119). The theory proves that the line
  \<open>initialize\<close> prints is the value it stores in the window's \<open>GWLP_USERDATA\<close> slot:
  the address of the parameter slot, not the window handle the specification speaks of.
\<close>

subsection \<open>Lemmas\<close>

lemma stdout_register_class [simp]: "stdout (snd (register_class wc s)) = stdout s"
  by (simp add: register_class_def read_cstr_def os_simps Let_def split: list.split prod.split)

lemma stdout_set_window_long_ptr [simp]: "stdout (snd (set_window_long_ptr h i v s)) = stdout s"
  by (simp add: set_window_long_ptr_def os_simps split: option.split)

subsection \<open>Properties\<close>

text \<open>C25. What \<open>initialize\<close> prints: when it succeeds and the window it created is live,
  it has added exactly one line to standard output, the decimal rendering of the value it
  stored in the window's \<open>GWLP_USERDATA\<close> slot.\<close>

theorem initialize_diagnostic:
  assumes "initialize w s = (Return (Inr ()), w', s')" and "\<not> initialized w"
    and "handle w' = Some h" and "windows s' h = Some wd"
  shows "stdout s' = stdout s @ [show_int (wnd_userdata wd)]"
proof -
  obtain inst cur r rs a s2 s3 where
    reg: "register_class (window_class cur inst (hyphenated (uuid_from_random r))) (s\<lparr>entropy := rs\<rparr>) = (a, s2)"
    and cw: "create_window (hyphenated (uuid_from_random r)) ''Sample Window''
               (WS_OVERLAPPEDWINDOW OR WS_VISIBLE) inst s2 = (h, s3)"
    and s': "s' = snd (set_window_long_ptr h GWLP_USERDATA (self_slot s3) (println (show_int (self_slot s3)) s3))"
    using initialize_ok_parts [OF assms(1,2)] assms(3) by auto
  have out3: "stdout s3 = stdout s"
    using create_window_queues [of "hyphenated (uuid_from_random r)" "''Sample Window''"
            "WS_OVERLAPPEDWINDOW OR WS_VISIBLE" inst s2]
          stdout_register_class [of "window_class cur inst (hyphenated (uuid_from_random r))"
            "s\<lparr>entropy := rs\<rparr>"] reg cw
    by simp
  have v: "wnd_userdata wd = self_slot s3"
    using assms(4) unfolding s'
    by (auto simp: set_window_long_ptr_def println_def win32_consts os_simps split: option.splits)
  show ?thesis
    unfolding v s' using out3 by (simp add: println_def)
qed

end
