(* ===== verification/Msg_Buffer.thy ===== *)
theory Msg_Buffer
  imports Window Wellformed "HOL-Library.While_Combinator"
begin

text \<open>
  The message loop of \<open>process_messages\<close> (\<open>src/src/lib.rs\<close>, lines 106--124) with the
  \<open>MSG\<close> buffer the code threads through it: \<open>let mut msg = MSG::default()\<close>, then
  \<open>GetMessageA(&mut msg, HWND(0), 0, 0)\<close> in every pass, and \<open>TranslateMessage(&msg)\<close>,
  \<open>DispatchMessageA(&msg)\<close> whenever the result is not \<open>BOOL(0)\<close>. The loop is stated over
  any \<open>GetMessageA\<close> (\<open>get_message_fn\<close>: it reads the buffer and the environment and
  returns the \<open>BOOL\<close> result, the buffer after the call and the environment, or \<open>None\<close>
  while it blocks). Two implementations are given: \<open>get_message_a\<close>, the call of
  \<open>Win32\<close>, which overwrites the buffer with the message it retrieves, and
  \<open>get_message_error\<close>, the documented failure of \<open>GetMessageA\<close>: it returns \<open>-1\<close> and
  leaves the buffer as it was. The code's test \<open>gm_result != BOOL(0)\<close> counts \<open>-1\<close> as a
  message. The loop is a \<open>while_option\<close> over the environment, the buffer and a flag that
  is false once the loop has broken out; \<open>None\<close> is a loop that does not stop.
\<close>

type_synonym get_message_fn = "msg \<Rightarrow> os \<Rightarrow> (int \<times> msg \<times> os) option"

definition msg_default :: msg where
  "msg_default = \<lparr>msg_hwnd = 0, msg_message = 0, msg_wParam = 0, msg_lParam = 0\<rparr>"

definition get_message_a :: get_message_fn where
  "get_message_a buf s = get_message s"

definition get_message_error :: get_message_fn where
  "get_message_error buf s = Some (-1, buf, s)"

definition pump_step :: "get_message_fn \<Rightarrow> os \<times> msg \<times> bool \<Rightarrow> os \<times> msg \<times> bool" where
  "pump_step gm = (\<lambda>(s, buf, go).
     case gm buf s of
       None \<Rightarrow> (s, buf, go)
     | Some (gm_result, buf', s1) \<Rightarrow>
         if gm_result \<noteq> 0 then (snd (dispatch_message buf' (translate_message buf' s1)), buf', True)
         else (println ''WM_QUIT'' s1, buf', False))"

definition pump_loop :: "get_message_fn \<Rightarrow> os \<Rightarrow> os option" where
  "pump_loop gm s =
     map_option fst (while_option (\<lambda>(_, _, go). go) (pump_step gm) (s, msg_default, True))"

subsection \<open>Lemmas\<close>

lemma dispatch_message_no_window:
  "windows s (msg_hwnd m) = None \<Longrightarrow> dispatch_message m s = (0, s)"
  by (simp add: dispatch_message_def)

lemma os_wf_no_window_0: "os_wf s \<Longrightarrow> windows s 0 = None"
  by (cases "windows s 0") (auto simp: os_wf_def)

lemma pump_step_error:
  "pump_step get_message_error (s, buf, go) = (snd (dispatch_message buf s), buf, True)"
  by (simp add: pump_step_def get_message_error_def translate_message_def)

lemma while_option_steps:
  "(\<forall>k<n. b ((c ^^ k) x)) \<Longrightarrow> \<not> b ((c ^^ n) x) \<Longrightarrow> while_option b c x = Some ((c ^^ n) x)"
proof (induction n arbitrary: x)
  case 0
  then show ?case by (simp add: while_option_unfold [of b c x])
next
  case (Suc n)
  have "b x" using Suc.prems(1) by (metis funpow_0 zero_less_Suc)
  moreover have "\<forall>k<n. b ((c ^^ k) (c x))"
    using Suc.prems(1) by (metis Suc_mono funpow_Suc_right o_apply)
  moreover have "\<not> b ((c ^^ n) (c x))"
    using Suc.prems(2) by (metis funpow_Suc_right o_apply)
  ultimately show ?case
    using Suc.IH [of "c x"] by (simp add: while_option_unfold [of b c x] funpow_swap1)
qed

lemma pump_step_posted:
  assumes "posted s = m # ms"
  shows "pump_step get_message_a (s, buf, go) = (snd (dispatch_message m (s\<lparr>posted := ms\<rparr>)), m, True)"
  using assms by (simp add: pump_step_def get_message_a_def get_message_def translate_message_def)

lemma pump_step_quit:
  assumes "posted s = []" and "quit s = Some c"
  shows "pump_step get_message_a (s, buf, go) =
           (println ''WM_QUIT'' (s\<lparr>quit := None\<rparr>), quit_msg c, False)"
  using assms by (simp add: pump_step_def get_message_a_def get_message_def)

text \<open>With a quit pending, each pass takes one posted message and the pass after the last
  one receives \<open>WM_QUIT\<close>: the flag stays true for \<open>length (posted s)\<close> passes and is
  false after one more.\<close>

lemma pump_passes:
  assumes "quit s \<noteq> None" and "posted s = ms"
  shows "(\<forall>k\<le>length ms. snd (snd ((pump_step get_message_a ^^ k) (s, buf, True)))) \<and>
         \<not> snd (snd ((pump_step get_message_a ^^ Suc (length ms)) (s, buf, True)))"
  using assms
proof (induction ms arbitrary: s buf)
  case Nil
  then obtain c where "quit s = Some c" by blast
  then show ?case using Nil.prems(2) by (simp add: pump_step_quit)
next
  case (Cons m ms)
  let ?s1 = "snd (dispatch_message m (s\<lparr>posted := ms\<rparr>))"
  have step: "pump_step get_message_a (s, buf, True) = (?s1, m, True)"
    using pump_step_posted [OF Cons.prems(2)] .
  have q: "quit ?s1 \<noteq> None"
    using quit_effect_dispatch [of "s\<lparr>posted := ms\<rparr>" m] Cons.prems(1) by (auto simp: quit_effect_def)
  have p: "posted ?s1 = ms" using dispatch_message_queues [of m "s\<lparr>posted := ms\<rparr>"] by simp
  note IH = Cons.IH [OF q p, of m]
  have all: "snd (snd ((pump_step get_message_a ^^ k) (s, buf, True)))" if "k \<le> Suc (length ms)" for k
  proof (cases k)
    case 0
    then show ?thesis by simp
  next
    case (Suc j)
    then show ?thesis using IH that by (simp add: funpow_Suc_right step del: funpow.simps)
  qed
  have eq: "(pump_step get_message_a ^^ Suc (Suc (length ms))) (s, buf, True) =
        (pump_step get_message_a ^^ Suc (length ms)) (?s1, m, True)"
    by (simp only: funpow_Suc_right o_apply step)
  have "\<not> snd (snd ((pump_step get_message_a ^^ Suc (Suc (length ms))) (s, buf, True)))"
    unfolding eq by (rule conjunct2 [OF IH])
  with all show ?case by simp
qed

subsection \<open>Properties\<close>

text \<open>C22. Termination of the pump once a quit is pending, with its bound: if
  \<open>PostQuitMessage\<close> has been called (and the model's \<open>GetMessageA\<close> does not fail),
  \<open>process_messages\<close> returns after exactly \<open>length (posted s) + 1\<close> passes of its loop:
  one \<open>DispatchMessageA\<close> for each message already posted, then the pass that receives
  \<open>WM_QUIT\<close> and breaks out. Input that the user has not yet produced is not waited for.\<close>

theorem pump_loop_terminates:
  assumes "quit s \<noteq> None"
  shows "pump_loop get_message_a s =
           Some (fst ((pump_step get_message_a ^^ (length (posted s) + 1)) (s, msg_default, True)))"
proof -
  have "\<forall>k\<le>length (posted s). snd (snd ((pump_step get_message_a ^^ k) (s, msg_default, True)))"
    and "\<not> snd (snd ((pump_step get_message_a ^^ Suc (length (posted s))) (s, msg_default, True)))"
    using pump_passes [OF assms refl] by auto
  then have "while_option (\<lambda>(_, _, go). go) (pump_step get_message_a) (s, msg_default, True) =
               Some ((pump_step get_message_a ^^ Suc (length (posted s))) (s, msg_default, True))"
    by (intro while_option_steps) (auto simp: case_prod_beta)
  then show ?thesis by (simp add: pump_loop_def)
qed

text \<open>C26. Error path of the pump: when \<open>GetMessageA\<close> fails (returns \<open>-1\<close>), the code
  takes the result for a message, dispatches the buffer again and calls \<open>GetMessageA\<close>
  again; a \<open>GetMessageA\<close> that keeps failing makes \<open>process_messages\<close> loop for ever
  instead of returning, from any environment.\<close>

theorem pump_loop_error_diverges: "pump_loop get_message_error s = None"
proof -
  have "while_option (\<lambda>(_, _, go). go) (pump_step get_message_error) (s, msg_default, True) = None"
  proof (rule ccontr)
    assume "while_option (\<lambda>(_, _, go). go) (pump_step get_message_error) (s, msg_default, True) \<noteq> None"
    then obtain t where t:
      "while_option (\<lambda>(_, _, go). go) (pump_step get_message_error) (s, msg_default, True) = Some t"
      by blast
    have "snd (snd t)"
      by (rule while_option_rule [where P = "\<lambda>x. snd (snd x)", OF _ t])
         (auto simp: pump_step_error)
    with while_option_stop [OF t] show False by (simp add: case_prod_beta)
  qed
  then show ?thesis by (simp add: pump_loop_def)
qed

text \<open>C27. The failing pump has no effect at all: before any message arrived the buffer
  is \<open>MSG::default()\<close>, addressed to \<open>HWND(0)\<close>, which names no window of a well-formed
  environment; \<open>DispatchMessageA\<close> drops it, so every pass leaves environment and buffer
  as they were. The thread spins in the loop without output, without a call reaching
  \<open>wndproc\<close>, and without a way out.\<close>

theorem pump_error_spins:
  assumes "os_wf s"
  shows "(pump_step get_message_error ^^ k) (s, msg_default, True) = (s, msg_default, True)"
proof (induction k)
  case 0
  then show ?case by simp
next
  case (Suc k)
  have "windows s (msg_hwnd msg_default) = None"
    using os_wf_no_window_0 [OF assms] by (simp add: msg_default_def)
  then show ?case
    using Suc.IH by (simp add: pump_step_error dispatch_message_no_window)
qed

end
