(* ===== verification/Spec2Isabelle.thy ===== *)
theory Spec2Isabelle
  imports App Lifecycle Resources Exits Wellformed Diagnostics Msg_Buffer
begin

text \<open>
  A verification development for the \<open>iwindows\<close> crate: one native top-level window on
  Win32, its class registration, its message pump and its teardown.

  \<^bold>\<open>The program.\<close> \<open>src/src/lib.rs\<close> defines \<open>struct Window\<close> (handle, class name, class
  atom, module handle, initialized flag) with \<open>new\<close>, \<open>initialize\<close> (get the module
  handle, draw a UUID as class name, register the class with \<open>wndproc\<close> as procedure,
  create the window, store a pointer in its user data), \<open>show\<close>, the window procedure
  \<open>wndproc\<close> (\<open>WM_CLOSE\<close>: \<open>DestroyWindow\<close>; \<open>WM_DESTROY\<close>: \<open>PostQuitMessage(0)\<close>;
  anything else: \<open>DefWindowProcA\<close>), the pump \<open>process_messages\<close> and \<open>Drop\<close> (destroy
  the window, then unregister the class). \<open>src/bin/app.rs\<close> sequences
  \<open>new\<close>, \<open>initialize\<close>, \<open>show\<close>, \<open>process_messages\<close>. The program and Win32 interact by
  calls in both directions: the program calls Win32, and Win32 calls \<open>wndproc\<close>
  synchronously from \<open>DispatchMessageA\<close>, \<open>DestroyWindow\<close>, \<open>DefWindowProcA\<close> and
  \<open>CreateWindowExA\<close>.

  \<^bold>\<open>The theories.\<close>
  \<^item> \<open>Prelude\<close>: machine types (\<open>u16\<close>, \<open>u32\<close>, 64-bit \<open>WPARAM\<close>/\<open>LPARAM\<close>/\<open>LRESULT\<close>
    as words), handles as \<open>nat\<close>, the outcome of a Rust call (\<open>Return\<close> or \<open>Panic\<close>),
    the decimal printing of \<open>println!\<close>.
  \<^item> \<open>Win32\<close>: the environment as a record \<open>os\<close> (classes, live windows, thread queue
    and quit flag, pending input, stdout, a log of resource events) and the Win32 calls
    that do not call back. Modelled from the Win32 documentation; not code of this
    repository.
  \<^item> \<open>Uuid\<close>: \<open>Uuid::new_v4\<close> and \<open>hyphenated\<close> of the \<open>uuid\<close> crate.
  \<^item> \<open>WndProc\<close>: \<open>wndproc\<close>, \<open>DestroyWindow\<close> and \<open>DefWindowProcA\<close> as one mutually
    recursive function (terminating by a rank on the message sent), \<open>CreateWindowExA\<close>
    and \<open>DispatchMessageA\<close>; the closed form of every message.
  \<^item> \<open>Window\<close>: \<open>struct Window\<close> as a record and its methods, each a function from the
    window and the environment to an outcome, a window and an environment; the pump as a
    \<open>function\<close> whose termination measure is the number of queued and pending messages;
    the field invariant \<open>window_inv\<close>.
  \<^item> \<open>App\<close>: \<open>main\<close>, with the destructor run on normal exit and on unwinding.
  \<^item> \<open>Lifecycle\<close>: the specification's state machine \<open>Uninitialized\<close> /
    \<open>Initialized\<close> / \<open>Running\<close> / \<open>Terminated\<close> / \<open>Failed\<close> as an inductive step
    relation \<open>lc_step\<close>, and a caller of the library (\<open>client_step\<close>) that makes the
    calls of \<open>app.rs\<close> in any order that keeps the specification's preconditions (the
    pump is started only on an initialized window; no call from inside the pump or after a
    panic), the pump one \<open>GetMessageA\<close> round at a time, with user input arriving at any
    time; a history variable \<open>phase\<close> says where the thread is. The abstraction
    \<open>lc_abs\<close> maps the caller to the specified state. The caller is a harness, not code
    of the repository: the code itself checks none of these preconditions.
  \<^item> \<open>Resources\<close>: the ownership invariant \<open>resources_owned\<close> (every class and live
    window of the process is the window's own, and the OS finds a NUL after every string
    buffer), kept by every call of the caller, and the release of everything by
    \<open>Drop\<close>; \<open>main\<close> written as a run of the caller; the class leak when the NUL is not
    there.
  \<^item> \<open>Exits\<close>: how \<open>main\<close> ends when \<open>initialize\<close> succeeds without a window.
  \<^item> \<open>Wellformed\<close>: well-formedness of the environment \<open>os_wf\<close> (atoms in the reserved
    range, live windows with handles in range and a registered class), kept by every
    Win32 call, every method of \<open>Window\<close> and the caller.
  \<^item> \<open>Diagnostics\<close>: the \<open>println!\<close> channel and the line \<open>initialize\<close> prints.
  \<^item> \<open>Msg_Buffer\<close>: the loop of \<open>process_messages\<close> in its source shape, \<open>loop\<close> with a
    \<open>break\<close> and the \<open>MSG\<close> buffer it threads (\<open>msg_default\<close>, \<open>pump_step\<close>,
    \<open>pump_loop\<close>), as \<open>while_option\<close> over any \<open>GetMessageA\<close> (\<open>get_message_fn\<close>):
    the call of \<open>Win32\<close> (\<open>get_message_a\<close>) and the documented failure that returns
    \<open>-1\<close> (\<open>get_message_error\<close>).
  \<^item> This theory: the properties that span the components, on a concrete environment.

  \<^bold>\<open>The properties.\<close>
  \<^item> Initialization (\<open>Window\<close>, C1, C2, C9, C11): the exact effect of \<open>initialize\<close>
    when every call succeeds, the rejection of a second call, and what the unchecked
    Win32 results let through (a window marked initialized with atom 0 and the null
    handle; a class name read past its buffer).
  \<^item> The window procedure (\<open>WndProc\<close>, C4): \<open>WM_CLOSE\<close> destroys the window through
    \<open>DestroyWindow\<close>, which sends \<open>WM_DESTROY\<close>, which posts the quit.
  \<^item> The pump (\<open>Window\<close>, C6, C7, C18; \<open>Msg_Buffer\<close>, C22): it returns after a
    \<open>WM_CLOSE\<close> or an \<open>SC_CLOSE\<close> system command, it never returns unless a quit was
    pending or posted while it ran, and once a quit is pending it returns after exactly
    one pass per posted message plus one.
  \<^item> The pump's error path (\<open>Msg_Buffer\<close>, C26, C27): the test
    \<open>gm_result != BOOL(0)\<close> takes the error value \<open>-1\<close> for a message, so a failing
    \<open>GetMessageA\<close> keeps the loop running for ever, re-dispatching \<open>MSG::default()\<close>
    to \<open>HWND(0)\<close> without any effect.
  \<^item> Teardown (\<open>Window\<close>, C5, C8, C10; \<open>Lifecycle\<close>, C15; this theory, C3, C12): window
    before class, a second \<open>DestroyWindow\<close> that fails harmlessly, the unregistration of
    a class that was never registered, a destructor that never panics on any exit path,
    and a panicking \<open>main\<close> that has acquired nothing.
  \<^item> Resources (\<open>Resources\<close>, C19, C20, C21): from a process with no class and no
    window, in which the OS finds a NUL after every string buffer, dropping the window
    after any run of the caller, and every exit of \<open>main\<close>, leaves no class and no
    window behind; without that NUL the class that \<open>initialize\<close> registered can outlive
    \<open>drop\<close>.
  \<^item> The lifecycle (\<open>Lifecycle\<close>, C13, C14, C16): every run of a caller that keeps the
    specification's preconditions is a run of the specified machine (refinement by
    simulation, proved by rule induction over the invariant \<open>client_inv\<close>),
    \<open>RegisterClassA\<close> is called exactly once and only with success, and \<open>show\<close> is
    always enabled in \<open>Initialized\<close>.
  \<^item> The whole program (this theory, C17; \<open>Exits\<close>, C23): a normal exit of \<open>main\<close>
    makes exactly the calls initialize, show, pump start, dispatch rounds and the quit
    round; when \<open>CreateWindowExA\<close> fails, \<open>initialize\<close> still returns \<open>Ok\<close> and
    \<open>main\<close> blocks in the pump for good instead of exiting.
  \<^item> Well-formedness (\<open>Wellformed\<close>, C24): every state the caller reaches has
    consistent window fields and a well-formed environment, also after \<open>Drop\<close>.
  \<^item> Diagnostics (\<open>Diagnostics\<close>, C25): \<open>initialize\<close> prints exactly the value it
    stores in the window's user data, which is the address of its parameter slot and not
    the window handle.

  \<^bold>\<open>Bounds and fuel.\<close> No fuel is used. The loop \<open>pump_loop\<close> uses \<open>while_option\<close>,
  whose \<open>None\<close> is non-termination: its termination once a quit is pending is proved by
  exhibiting the pass at which the loop flag first turns false (C22), and its
  non-termination under a failing \<open>GetMessageA\<close> from the invariant that the flag stays
  true (C26). The mutual recursion of the window procedure and the Win32 sends
  terminates by the measure \<open>send_rank\<close>; the recursive pump \<open>process_messages\<close>
  terminates because the procedure never posts messages, so each iteration consumes one
  queued or input message. A pump that has consumed all input and has no quit pending is
  \<open>Blocked\<close>: the real call waits in \<open>GetMessageA\<close>. Input is a finite list; an
  infinite user session is not modelled.

  \<^bold>\<open>Coverage.\<close> Every line of \<open>src/src/lib.rs\<close> and \<open>src/bin/app.rs\<close> that does
  something is translated; what remains are \<open>use\<close> declarations and braces. The Win32 API
  and the \<open>uuid\<close> crate are modelled only as far as the program calls them: the Win32
  component stays partial (see below), the \<open>uuid\<close> crate is complete for its two calls.

  \<^bold>\<open>Not modelled.\<close> Window geometry, painting and all \<open>DefWindowProcA\<close> behaviour
  other than \<open>WM_NCCREATE\<close>, \<open>WM_CLOSE\<close> and \<open>SC_CLOSE\<close>; keyboard translation; the
  memory model behind the dangling \<open>transmute(&self)\<close> pointer (only its value is
  stored); case-insensitive class name matching; other threads and processes; a failing write
  to standard output (\<open>println!\<close> would panic).

  \<^bold>\<open>Left for later.\<close> Windows and classes that other code of the process creates
  (the release theorems assume a process that starts with none).\<close>

section \<open>A concrete environment\<close>

text \<open>A process with a module handle, the arrow cursor, one random value for the UUID,
  NUL bytes after every string buffer, an empty class table and no windows; \<open>inp\<close> is the
  user's input. \<open>close_click\<close> is the \<open>WM_CLOSE\<close> that a click on the close box of the
  first window produces; \<open>sc_close_click\<close> is the \<open>SC_CLOSE\<close> system command that the close
  box or the system menu sends.\<close>

definition sample_entropy :: u128 where
  "sample_entropy = 0x0123456789ABCDEF0123456789ABCDEF"

definition sample_env :: "msg list \<Rightarrow> os" where
  "sample_env inp =
     \<lparr>module_handle = Some 4194304, arrow_cursor = Some 65539, entropy = [sample_entropy],
      cstr_tails = [], self_slot = 6422040, classes = Map.empty, next_atom = 0xC000,
      windows = Map.empty, next_hwnd = 0, posted = [], quit = None, input = inp,
      stdout = [], events = []\<rparr>"

definition close_click :: msg where
  "close_click = \<lparr>msg_hwnd = 1, msg_message = WM_CLOSE, msg_wParam = 0, msg_lParam = 0\<rparr>"

definition sc_close_click :: msg where
  "sc_close_click = \<lparr>msg_hwnd = 1, msg_message = WM_SYSCOMMAND, msg_wParam = 0xF060, msg_lParam = 0\<rparr>"

definition sample_name :: string where
  "sample_name = hyphenated (uuid_from_random sample_entropy)"

text \<open>The caller after a successful \<open>initialize\<close> of a new window in that
  environment, and the same caller inside the pump.\<close>

definition sample_client :: client where
  "sample_client =
     \<lparr>cw = fst (snd (initialize new (sample_env []))), cs = snd (snd (initialize new (sample_env []))),
      phase = Idle\<rparr>"

definition sample_pumping :: client where
  "sample_pumping = sample_client\<lparr>phase := Pumping\<rparr>"

lemma visible_style: "(WS_OVERLAPPEDWINDOW OR WS_VISIBLE) AND WS_VISIBLE \<noteq> 0"
  by (simp add: win32_consts)

lemmas run_simps = sample_env_def close_click_def sample_name_def
  set_window_long_ptr_def show'_def show_window_def get_message_def
  dispatch_message_def translate_message_def wndproc_close_msg close_effect_def
  post_quit_message_def finish_def drop_window_def destroy_window_eq unregister_class_def
  read_cstr_exact class_has_windows_def os_simps Let_def SW_NORMAL_def

lemma sample_initialize:
  "initialize new (sample_env inp) =
     (Return (Inr ()),
      \<lparr>handle = Some 1, class_str = sample_name, atom = Some 0xC000, instance' = Some 4194304,
       initialized = True\<rparr>,
      (sample_env inp)\<lparr>entropy := [],
        classes := [(sample_name, 4194304) \<mapsto> 0xC000], next_atom := 0xC001,
        windows := [1 \<mapsto> (new_wnd sample_name 4194304 ''Sample Window'' (WS_OVERLAPPEDWINDOW OR WS_VISIBLE))
                           \<lparr>wnd_visible := True, wnd_userdata := 6422040\<rparr>],
        next_hwnd := 1, stdout := [show_int 6422040],
        events := [Ev_RegisterClassA sample_name 0xC000, Ev_Send 1 WM_NCCREATE, Ev_Send 1 WM_CREATE,
                   Ev_CreateWindowExA sample_name 1, Ev_SetWindowLongPtrA 1 6422040]\<rparr>)"
  using visible_style nul_not_in_hyphenated length_hyphenated hyphenated_nonempty
  by (simp add: run_simps new_def initialize_def get_module_handle_def load_cursor_def new_v4_def
      window_class_def register_class_fresh create_window_fresh)

section \<open>Properties of the whole program\<close>

text \<open>C3. The destructor never panics inside \<open>main\<close>: whatever the environment does,
  the window that \<open>initialize\<close> leaves satisfies \<open>window_inv\<close>, so the \<open>unwrap\<close> in
  \<open>drop\<close> succeeds and a panic that unwinds out of \<open>main\<close> never turns into an
  abort.\<close>

theorem main_never_aborts: "main s \<noteq> Aborted e s'"
proof -
  obtain r w1 s1 where i: "initialize new s = (r, w1, s1)"
    by (cases "initialize new s")
  have "window_inv w1"
    using initialize_window_inv [OF window_inv_new, of s] i by simp
  then have dw: "drop_window w1 t \<noteq> (Panic e', t')" for t e' t'
    using drop_window_no_panic [of w1 t] by auto
  show ?thesis
    by (auto simp: main_def i unwind_def finish_def dw
             split: outcome.splits sum.splits prod.splits pump_result.splits)
qed

text \<open>C12. A run of \<open>main\<close> that ends in a panic has acquired nothing: no class, no
  window, no logged call, no output. The only panics are the \<open>unwrap\<close>s of
  \<open>initialize\<close> and the random source, all before \<open>RegisterClassA\<close>; \<open>show\<close> cannot
  panic after \<open>Ok(())\<close> and \<open>drop\<close> never panics.\<close>

theorem main_panic_acquires_nothing:
  assumes "main s = Panicked e s'"
  shows "classes s' = classes s \<and> windows s' = windows s \<and> events s' = events s \<and>
         stdout s' = stdout s"
proof -
  obtain r w1 s1 where i: "initialize new s = (r, w1, s1)"
    by (cases "initialize new s")
  have inv: "window_inv w1"
    using initialize_window_inv [OF window_inv_new, of s] i by simp
  then have dw: "drop_window w1 t \<noteq> (Panic e', t')" for t e' t'
    using drop_window_no_panic [of w1 t] by auto
  show ?thesis
  proof (cases r)
    case (Panic e0)
    with i have p: "handle w1 = None \<and> atom w1 = None \<and> classes s1 = classes s \<and>
        windows s1 = windows s \<and> events s1 = events s \<and> stdout s1 = stdout s"
      using initialize_panic [of new s e0 w1 s1] by (simp add: new_def)
    then have "drop_window w1 s1 = (Return (), s1)"
      by (simp add: drop_window_def)
    with assms i Panic p show ?thesis
      by (simp add: main_def unwind_def)
  next
    case (Return v)
    show ?thesis
    proof (cases v)
      case (Inl msg)
      with assms i Return dw show ?thesis
        by (auto simp: main_def finish_def split: prod.splits outcome.splits)
    next
      case (Inr u)
      then have "handle w1 \<noteq> None"
        using initialize_ok_handle [OF window_inv_new, of s] i Return by simp
      then obtain h where "handle w1 = Some h" by blast
      with assms i Return Inr dw show ?thesis
        by (auto simp: main_def finish_def show'_def
                 split: prod.splits outcome.splits pump_result.splits)
    qed
  qed
qed

text \<open>C17. The entry point makes exactly the calls of the specified lifecycle: when
  \<open>main\<close> exits normally, its calls are, in this order, an \<open>initialize\<close> that returns
  \<open>Ok\<close>, one \<open>show\<close>, the start of the pump, some number of rounds that dispatch a
  message and the round that receives \<open>WM_QUIT\<close>; as a run of the caller they end in
  \<open>Terminated\<close>, and the process state is what dropping the window leaves after them.
  A \<open>main\<close> that skipped \<open>show\<close>, called \<open>initialize\<close> twice or exited without the
  quit would not satisfy it.\<close>

theorem main_follows_lifecycle:
  assumes "main s = Exited s'"
  shows "\<exists>n c. client_run (client_init s)
                  ([Init_ok, Show_ev, Pump_start] @ replicate n Pump_dispatch @ [Pump_quit]) c \<and>
                lc_abs c = Terminated \<and> finish (cw c) (cs c) = Exited s'"
proof -
  obtain r w1 s1 where i: "initialize new s = (r, w1, s1)" by (cases "initialize new s")
  have ni: "\<not> initialized new" by (simp add: new_def)
  have unw: "unwind e w t \<noteq> Exited s'" for e w t
    by (simp add: unwind_def split: prod.split outcome.split)
  obtain w where r: "r = Return (Inr ())"
    using assms i ni initialize_rejected [of new s _ w1 s1] unw
    by (cases r) (auto simp: main_def split: sum.splits)
  obtain s2 where sh: "show' w1 s1 = (Return (), s2)"
    using assms i r unw by (cases "show' w1 s1") (auto simp: main_def split: outcome.splits)
  obtain s3 where pm: "process_messages s2 = Returned s3" and fin: "finish w1 s3 = Exited s'"
    using assms i r sh by (cases "process_messages s2") (auto simp: main_def)
  let ?c1 = "(client_init s)\<lparr>cw := w1, cs := s1\<rparr>"
  let ?c3 = "?c1\<lparr>cs := s2, phase := Pumping\<rparr>"
  have st1: "client_step (client_init s) Init_ok ?c1"
    by (rule cs_init_ok) (simp_all add: at_rest_def client_init_def i r)
  have st2: "client_step ?c1 Show_ev (?c1\<lparr>cs := s2\<rparr>)"
    by (rule cs_show) (simp_all add: client_init_def sh)
  have ini: "initialized w1"
    using initialize_ok_initialized [of new s] i r by simp
  have st3: "client_step (?c1\<lparr>cs := s2\<rparr>) Pump_start ?c3"
    by (rule cs_pump_start) (simp_all add: client_init_def ini)
  obtain c' where mv: "pump_move\<^sup>*\<^sup>* ?c3 c'" and ph: "phase c' = Pumped" and cs': "cs c' = s3"
    using returned_pump_moves [OF pm, of ?c3] by auto
  obtain n where run: "client_run ?c3 (replicate n Pump_dispatch @ [Pump_quit]) c'" and cw': "cw c' = w1"
    using pump_moves_rounds [OF mv _ ph] by auto
  have "client_run (client_init s)
          ([Init_ok, Show_ev, Pump_start] @ replicate n Pump_dispatch @ [Pump_quit]) c'"
    using st1 st2 st3 run by (auto intro!: client_run_cons)
  moreover have "lc_abs c' = Terminated" using ph by (simp add: lc_abs_def)
  ultimately show ?thesis using fin cw' cs' by blast
qed

section \<open>Witnesses\<close>

text \<open>Each theorem with hypotheses, applied where its hypotheses hold.\<close>

theorem initialize_creates_window_witness:
  "fst (initialize new (sample_env [])) = Return (Inr ()) \<and>
   handle (fst (snd (initialize new (sample_env [])))) = Some 1"
  using initialize_creates_window [of new "sample_env []" 4194304 65539 sample_entropy "[]"]
  by (simp add: sample_env_def new_def Let_def)

theorem initialize_second_call_witness:
  "initialize (fst (snd (initialize new (sample_env [])))) (sample_env []) =
     (Return (Inl ''Window already initialized''), fst (snd (initialize new (sample_env []))),
      sample_env [])"
  by (rule initialize_second_call) (simp add: sample_initialize)

theorem wndproc_close_chain_witness:
  "windows (snd (wndproc 1 WM_CLOSE 0 0 (snd (snd (initialize new (sample_env [])))))) 1 = None \<and>
   quit (snd (wndproc 1 WM_CLOSE 0 0 (snd (snd (initialize new (sample_env [])))))) = Some 0"
  using wndproc_close_chain [of "snd (snd (initialize new (sample_env [])))" 1 0 0]
  by (simp add: sample_initialize)

theorem drop_window_destroys_then_unregisters_witness:
  "\<exists>b. events (snd (drop_window (fst (snd (initialize new (sample_env []))))
                                  (snd (snd (initialize new (sample_env [])))))) =
     events (snd (snd (initialize new (sample_env [])))) @
     [Ev_Send 1 WM_DESTROY, Ev_PostQuitMessage 0, Ev_Send 1 WM_NCDESTROY, Ev_DestroyWindow 1 True,
      Ev_UnregisterClassA sample_name b]"
  using drop_window_destroys_then_unregisters
          [of "fst (snd (initialize new (sample_env [])))" 1 "0xC000" 4194304
              "snd (snd (initialize new (sample_env [])))"]
        nul_not_in_hyphenated [of "uuid_from_random sample_entropy"]
  unfolding sample_initialize
  by (simp add: sample_env_def sample_name_def read_cstr_exact)

theorem process_messages_close_returns_witness:
  "\<exists>s'. process_messages (snd (snd (initialize new (sample_env [close_click])))) = Returned s' \<and>
        windows s' 1 = None \<and> input s' = [] \<and> quit s' = None \<and>
        stdout s' = [show_int 6422040, ''WM_QUIT'']"
  using process_messages_close_returns
          [of "snd (snd (initialize new (sample_env [close_click])))" close_click "[]"]
  unfolding sample_initialize
  by (simp add: sample_env_def close_click_def)

theorem process_messages_returns_after_quit_witness:
  "process_messages ((sample_env [])\<lparr>quit := Some 0\<rparr>) =
     Returned (println ''WM_QUIT'' ((sample_env [])\<lparr>quit := None\<rparr>)) \<and>
   (quit ((sample_env [])\<lparr>quit := Some 0\<rparr>) = Some 0 \<or>
    Ev_PostQuitMessage 0 \<in> set (events (println ''WM_QUIT'' ((sample_env [])\<lparr>quit := None\<rparr>))))"
proof -
  have ret: "process_messages ((sample_env [])\<lparr>quit := Some 0\<rparr>) =
               Returned (println ''WM_QUIT'' ((sample_env [])\<lparr>quit := None\<rparr>))"
    by (rule process_messages_quit_msg) (simp add: get_message_def sample_env_def)
  show ?thesis
    using process_messages_returns_after_quit [OF ret] ret by simp
qed

theorem initialize_ok_without_class_witness:
  "fst (initialize new ((sample_env [])\<lparr>next_atom := 0\<rparr>)) = Return (Inr ()) \<and>
   handle (fst (snd (initialize new ((sample_env [])\<lparr>next_atom := 0\<rparr>)))) = Some 0 \<and>
   atom (fst (snd (initialize new ((sample_env [])\<lparr>next_atom := 0\<rparr>)))) = Some 0"
  using initialize_ok_without_class
          [of new "(sample_env [])\<lparr>next_atom := 0\<rparr>" 4194304 65539 sample_entropy "[]"]
  by (simp add: sample_env_def new_def Let_def)

theorem drop_window_after_failed_registration_witness:
  "drop_window \<lparr>handle = Some 0, class_str = sample_name, atom = Some 0, instance' = Some 4194304,
                initialized = True\<rparr> (sample_env []) =
     (Return (), (sample_env [])\<lparr>events := [Ev_DestroyWindow 0 False,
                                              Ev_UnregisterClassA sample_name False]\<rparr>)"
  using drop_window_after_failed_registration
          [of "\<lparr>handle = Some 0, class_str = sample_name, atom = Some 0, instance' = Some 4194304,
                initialized = True\<rparr>" 4194304 "sample_env []"]
        nul_not_in_hyphenated [of "uuid_from_random sample_entropy"]
  by (simp add: sample_env_def sample_name_def)

theorem drop_window_dead_handle_witness:
  "drop_window \<lparr>handle = Some 1, class_str = sample_name, atom = Some 0xC000, instance' = Some 4194304,
                initialized = True\<rparr> (sample_env []) =
   drop_window \<lparr>handle = None, class_str = sample_name, atom = Some 0xC000, instance' = Some 4194304,
                initialized = True\<rparr> (log (Ev_DestroyWindow 1 False) (sample_env []))"
  by (rule drop_window_dead_handle [THEN trans]) (simp_all add: sample_env_def)

theorem initialize_unterminated_name_witness:
  "fst (initialize new ((sample_env [])\<lparr>cstr_tails := [[], ''x'']\<rparr>)) = Return (Inr ()) \<and>
   handle (fst (snd (initialize new ((sample_env [])\<lparr>cstr_tails := [[], ''x'']\<rparr>)))) = Some 0"
  using initialize_unterminated_name
          [of new "(sample_env [])\<lparr>cstr_tails := [[], ''x'']\<rparr>" 4194304 65539 sample_entropy "[]" "''x''"]
  by (simp add: sample_env_def new_def)

theorem main_panic_acquires_nothing_witness:
  "main ((sample_env [])\<lparr>module_handle := None\<rparr>) =
     Panicked unwrap_none_msg ((sample_env [])\<lparr>module_handle := None, entropy := []\<rparr>) \<and>
   classes ((sample_env [])\<lparr>module_handle := None, entropy := []\<rparr>) = Map.empty \<and>
   events ((sample_env [])\<lparr>module_handle := None, entropy := []\<rparr>) = []"
proof -
  have run: "main ((sample_env [])\<lparr>module_handle := None\<rparr>) =
      Panicked unwrap_none_msg ((sample_env [])\<lparr>module_handle := None, entropy := []\<rparr>)"
    by (simp add: main_def initialize_def get_module_handle_def new_v4_def load_cursor_def
        unwind_def drop_window_def new_def sample_env_def Let_def)
  show ?thesis
    using main_panic_acquires_nothing [OF run] run by (simp add: sample_env_def)
qed

lemma sample_main_exits: "\<exists>s'. main (sample_env [close_click]) = Exited s'"
  unfolding main_def Let_def sample_initialize
  using nul_not_in_hyphenated [of "uuid_from_random sample_entropy"]
  by (simp add: process_messages.simps run_simps)

lemma exhausted_initialize:
  "fst (initialize new ((sample_env inp)\<lparr>next_atom := 0\<rparr>)) = Return (Inr ()) \<and>
   windows (snd (snd (initialize new ((sample_env inp)\<lparr>next_atom := 0\<rparr>)))) = Map.empty"
  using nul_not_in_hyphenated [of "uuid_from_random sample_entropy"]
  by (simp add: sample_env_def new_def initialize_def get_module_handle_def load_cursor_def
      new_v4_def window_class_def register_class_exhausted create_window_missing
      set_window_long_ptr_def os_simps Let_def)

lemma sample_client_run: "client_run (client_init (sample_env [])) [Init_ok] sample_client"
proof (rule client_run_cons [OF _ client_run_nil])
  have "client_step (client_init (sample_env [])) Init_ok
          ((client_init (sample_env []))\<lparr>cw := fst (snd (initialize new (sample_env []))),
                                         cs := snd (snd (initialize new (sample_env [])))\<rparr>)"
    by (rule cs_init_ok) (simp_all add: at_rest_def client_init_def sample_initialize)
  then show "client_step (client_init (sample_env [])) Init_ok sample_client"
    by (simp add: sample_client_def client_init_def)
qed

lemma sample_pumping_run:
  "client_run (client_init (sample_env [])) [Init_ok, Pump_start] sample_pumping"
proof -
  have "client_step sample_client Pump_start sample_pumping"
    unfolding sample_pumping_def
    by (rule cs_pump_start) (simp_all add: sample_client_def sample_initialize)
  then have "client_run sample_client [Pump_start] sample_pumping"
    by (rule client_run_cons [OF _ client_run_nil])
  with sample_client_run show ?thesis
    by (auto elim: client_run.cases intro: client_run_cons)
qed

theorem client_run_refines_spec_witness:
  "client_run (client_init (sample_env [])) [Init_ok, Pump_start] sample_pumping \<and>
   lc_run Uninitialized [Init_ok, Pump_start] Running"
  using client_run_refines_spec [OF sample_pumping_run] sample_pumping_run
  by (simp add: lc_abs_def sample_pumping_def)

theorem client_run_registers_once_witness:
  "client_run (client_init (sample_env [])) [Init_ok] sample_client \<and>
   registrations (cs sample_client) = registrations (sample_env []) + 1"
proof -
  have "initialized (cw sample_client)"
    by (simp add: sample_client_def sample_initialize)
  then show ?thesis
    using client_run_registers_once [OF sample_client_run] sample_client_run by simp
qed

theorem client_run_drop_safe_witness:
  "client_run (client_init (sample_env [])) [Init_ok] sample_client \<and>
   fst (drop_window (cw sample_client) (sample_env [])) = Return ()"
  using client_run_drop_safe [OF sample_client_run] sample_client_run by simp

theorem client_run_show_enabled_witness:
  "client_run (client_init (sample_env [])) [Init_ok] sample_client \<and>
   lc_abs sample_client = Initialized \<and>
   (\<exists>c'. client_step sample_client Show_ev c' \<and> lc_abs c' = Initialized)"
proof -
  have st: "lc_abs sample_client = Initialized"
    by (simp add: lc_abs_def sample_client_def sample_initialize)
  show ?thesis
    using client_run_show_enabled [OF sample_client_run st] sample_client_run st by simp
qed

theorem main_follows_lifecycle_witness:
  "\<exists>s'. main (sample_env [close_click]) = Exited s' \<and>
     (\<exists>n c. client_run (client_init (sample_env [close_click]))
                  ([Init_ok, Show_ev, Pump_start] @ replicate n Pump_dispatch @ [Pump_quit]) c \<and>
                lc_abs c = Terminated \<and> finish (cw c) (cs c) = Exited s')"
proof -
  obtain s' where m: "main (sample_env [close_click]) = Exited s'"
    using sample_main_exits by blast
  show ?thesis using main_follows_lifecycle [OF m] m by blast
qed

theorem process_messages_sc_close_returns_witness:
  "posted ((cs sample_client)\<lparr>input := [sc_close_click]\<rparr>) = [] \<and>
   quit ((cs sample_client)\<lparr>input := [sc_close_click]\<rparr>) = None \<and>
   windows ((cs sample_client)\<lparr>input := [sc_close_click]\<rparr>) 1 \<noteq> None \<and>
   (\<exists>s'. process_messages ((cs sample_client)\<lparr>input := [sc_close_click]\<rparr>) = Returned s' \<and>
         windows s' 1 = None \<and> stdout s' = [show_int 6422040, ''WM_QUIT''])"
proof -
  let ?s = "(cs sample_client)\<lparr>input := [sc_close_click]\<rparr>"
  have h: "posted ?s = [] \<and> quit ?s = None \<and> input ?s = sc_close_click # [] \<and>
           msg_message sc_close_click = WM_SYSCOMMAND \<and> msg_wParam sc_close_click AND 0xFFF0 = SC_CLOSE \<and>
           windows ?s (msg_hwnd sc_close_click) \<noteq> None \<and> stdout ?s = [show_int 6422040]"
    unfolding sample_client_def sample_initialize
    by (simp add: sc_close_click_def sample_env_def win32_consts)
  then obtain s' where "process_messages ?s = Returned s'" and "windows s' (msg_hwnd sc_close_click) = None"
      and "stdout s' = stdout ?s @ [''WM_QUIT'']"
    using process_messages_sc_close_returns [of ?s sc_close_click "[]"] by blast
  with h show ?thesis by (auto simp: sc_close_click_def)
qed

theorem client_run_no_leak_witness:
  "client_run (client_init (sample_env [])) [Init_ok] sample_client \<and>
   classes (snd (drop_window (cw sample_client) (cs sample_client))) = Map.empty \<and>
   windows (snd (drop_window (cw sample_client) (cs sample_client))) = Map.empty"
proof -
  have "classes (sample_env []) = Map.empty" "windows (sample_env []) = Map.empty"
       "cstr_tails (sample_env []) = []"
    by (simp_all add: sample_env_def)
  then show ?thesis using client_run_no_leak [OF sample_client_run] sample_client_run by simp
qed

theorem main_releases_resources_witness:
  "\<exists>s'. main (sample_env [close_click]) = Exited s' \<and> classes s' = Map.empty \<and> windows s' = Map.empty"
proof -
  obtain s' where m: "main (sample_env [close_click]) = Exited s'"
    using sample_main_exits by blast
  have "classes (sample_env [close_click]) = Map.empty" "windows (sample_env [close_click]) = Map.empty"
       "cstr_tails (sample_env [close_click]) = []"
    by (simp_all add: sample_env_def)
  then show ?thesis using main_releases_resources [of "sample_env [close_click]" s'] m by auto
qed

theorem pump_loop_terminates_witness:
  "quit ((cs sample_client)\<lparr>quit := Some 0, posted := [close_click]\<rparr>) \<noteq> None \<and>
   pump_loop get_message_a ((cs sample_client)\<lparr>quit := Some 0, posted := [close_click]\<rparr>) =
     Some (fst ((pump_step get_message_a ^^ 2)
                  ((cs sample_client)\<lparr>quit := Some 0, posted := [close_click]\<rparr>, msg_default, True)))"
  using pump_loop_terminates [of "(cs sample_client)\<lparr>quit := Some 0, posted := [close_click]\<rparr>"]
  by (simp add: numeral_2_eq_2)

theorem main_hangs_without_window_witness:
  "fst (initialize new ((sample_env [close_click])\<lparr>next_atom := 0\<rparr>)) = Return (Inr ()) \<and>
   windows (snd (snd (initialize new ((sample_env [close_click])\<lparr>next_atom := 0\<rparr>)))) = Map.empty \<and>
   (\<exists>s'. main ((sample_env [close_click])\<lparr>next_atom := 0\<rparr>) = Hung s' \<and> windows s' = Map.empty)"
proof -
  have e: "posted ((sample_env [close_click])\<lparr>next_atom := 0\<rparr>) = [] \<and>
           quit ((sample_env [close_click])\<lparr>next_atom := 0\<rparr>) = None"
    by (simp add: sample_env_def)
  show ?thesis
    using main_hangs_without_window [of "(sample_env [close_click])\<lparr>next_atom := 0\<rparr>"]
      exhausted_initialize [of "[close_click]"] e by simp
qed

lemma sample_env_wf: "os_wf (sample_env inp)"
  by (simp add: os_wf_def atoms_ok_def sample_env_def win32_consts)

theorem client_run_wf_witness:
  "client_run (client_init (sample_env [])) [Init_ok] sample_client \<and> os_wf (sample_env []) \<and>
   window_inv (cw sample_client) \<and> os_wf (cs sample_client) \<and>
   os_wf (snd (drop_window (cw sample_client) (cs sample_client)))"
  using client_run_wf [OF sample_client_run sample_env_wf] sample_client_run sample_env_wf by simp

theorem initialize_diagnostic_witness:
  "handle (fst (snd (initialize new (sample_env [])))) = Some 1 \<and>
   wnd_userdata (the (windows (snd (snd (initialize new (sample_env [])))) 1)) = 6422040 \<and>
   stdout (snd (snd (initialize new (sample_env [])))) = [show_int 6422040]"
  using initialize_diagnostic
          [of new "sample_env []" "fst (snd (initialize new (sample_env [])))"
              "snd (snd (initialize new (sample_env [])))" 1
              "(new_wnd sample_name 4194304 ''Sample Window'' (WS_OVERLAPPEDWINDOW OR WS_VISIBLE))
                 \<lparr>wnd_visible := True, wnd_userdata := 6422040\<rparr>"]
  unfolding sample_initialize by (simp add: new_def sample_env_def)

theorem pump_error_spins_witness:
  "os_wf (sample_env [close_click]) \<and>
   (pump_step get_message_error ^^ 5) (sample_env [close_click], msg_default, True) =
     (sample_env [close_click], msg_default, True)"
  by (rule conjI [OF sample_env_wf pump_error_spins [OF sample_env_wf]])

lemma stray_bytes_initialize:
  "initialize new ((sample_env [])\<lparr>cstr_tails := [''x'', [], []]\<rparr>) =
     (Return (Inr ()),
      \<lparr>handle = Some 0, class_str = sample_name, atom = Some 0xC000, instance' = Some 4194304,
       initialized = True\<rparr>,
      snd (snd (initialize new ((sample_env [])\<lparr>cstr_tails := [''x'', [], []]\<rparr>))))"
proof -
  have nul: "CHR 0x00 \<notin> set sample_name"
    using nul_not_in_hyphenated [of "uuid_from_random sample_entropy"] by (simp add: sample_name_def)
  have rd1: "read_cstr sample_name ((sample_env [])\<lparr>cstr_tails := [''x'', [], []], entropy := []\<rparr>) =
               (sample_name @ ''x'', (sample_env [])\<lparr>cstr_tails := [[], []], entropy := []\<rparr>)"
    using read_cstr_tail [of "(sample_env [])\<lparr>cstr_tails := [''x'', [], []], entropy := []\<rparr>" "''x''" "[[], []]"
            sample_name] nul by simp
  have rd2: "read_cstr sample_name t = (sample_name, t\<lparr>cstr_tails := [[]]\<rparr>)" if "cstr_tails t = [[], []]" for t
    using read_cstr_tail [of t "[]" "[[]]" sample_name] that nul by simp
  show ?thesis
    using rd1 length_hyphenated [of "uuid_from_random sample_entropy"]
    by (simp add: initialize_def sample_env_def new_def get_module_handle_def load_cursor_def new_v4_def
        window_class_def sample_name_def [symmetric] register_class_new create_window_unregistered rd2
        set_window_long_ptr_def os_simps Let_def)
qed

theorem drop_window_leaks_class_witness:
  "classes (snd (drop_window
                   \<lparr>handle = Some 0, class_str = sample_name, atom = Some 0xC000,
                    instance' = Some 4194304, initialized = True\<rparr>
                   (snd (snd (initialize new ((sample_env [])\<lparr>cstr_tails := [''x'', [], []]\<rparr>))))))
     (sample_name @ ''x'', 4194304) = Some 0xC000"
  using drop_window_leaks_class [OF stray_bytes_initialize, of "''x''" "[]" "[]" "0xC000"]
  by (simp add: new_def sample_env_def)

end
